theory Spec2Isabelle
  imports Complex_Main "HOL-Library.Word"
begin

unbundle bit_operations_syntax

section \<open>Conventions of the embedding\<close>

text \<open>
  The embedded routine is \<^verbatim>\<open>compute_landsat_sr_refl\<close> of
  \<^verbatim>\<open>lasrc/c_version/src/compute_landsat_refl.c\<close>.

  \<^item> C \<^verbatim>\<open>float\<close> and \<^verbatim>\<open>double\<close> values are real numbers and the arithmetic
    on them is exact: the rounding of binary32 and binary64 operations is not modelled.
  \<^item> The Angstrom exponent and the optical thickness of a pixel (\<^verbatim>\<open>eps\<close>, \<^verbatim>\<open>teps\<close>,
    \<^verbatim>\<open>taero\<close>) are values of type \<open>cfloat\<close>, which has the IEEE infinities and NaN:
    the exponent is the quotient of line 1068, whose divisor the source does not test.
  \<^item> At the divisions of lines 640, 994-997, 1092, 1163 and 1310 a divisor that is zero
    makes the model return the error \<open>NonFinite\<close> instead of a value.
  \<^item> A C array is a total function from its index; only indices below the declared
    size are meaningful. Pixel arrays are row-major: pixel \<open>(line, samp)\<close> has index
    \<open>line * nsamps + samp\<close>.
  \<^item> \<^verbatim>\<open>int16\<close> grid cells are integers (no arithmetic is done on them apart from
    the conversion to floating point); the \<^verbatim>\<open>uint8\<close> flag byte is an \<open>8 word\<close>.
  \<^item> Functions, macros and enumerators declared outside this source file are
    parameters of the model unless stated otherwise.
\<close>

type_synonym 'a arr = "nat \<Rightarrow> 'a"

datatype error = AtmcorError | GeolocError | AerosolFixError | NonFinite | NoProgress

section \<open>Climatology correction of one pixel and its inverse\<close>

text \<open>Per-band scene-wide coefficients \<^verbatim>\<open>btgo, broatm, bttatmg, bsatm\<close>.\<close>

record clim_coeffs =
  btgo :: "real arr"
  broatm :: "real arr"
  bttatmg :: "real arr"
  bsatm :: "real arr"

text \<open>
  The range check that precedes every store into \<^verbatim>\<open>sband\<close>; the bounds are the
  macros \<^verbatim>\<open>MIN_VALID_REFL\<close> and \<^verbatim>\<open>MAX_VALID_REFL\<close>.
\<close>

definition clamp_refl :: "real \<Rightarrow> real \<Rightarrow> real \<Rightarrow> real" where
  "clamp_refl min_valid max_valid roslamb =
     (if roslamb < min_valid then min_valid
      else if roslamb > max_valid then max_valid
      else roslamb)"

text \<open>
  Lines 639-640:
  \<^verbatim>\<open>roslamb = sband[ib][i] - tgo_x_roatm; roslamb /= tgo_x_ttatmg + satm * roslamb;\<close>
  The source computes these in binary32; here the arithmetic is exact.
\<close>

definition climatology_roslamb :: "clim_coeffs \<Rightarrow> nat \<Rightarrow> real \<Rightarrow> real" where
  "climatology_roslamb c ib rotoa =
     (let tgo_x_roatm = btgo c ib * broatm c ib;
          tgo_x_ttatmg = btgo c ib * bttatmg c ib;
          roslamb = rotoa - tgo_x_roatm
      in roslamb / (tgo_x_ttatmg + bsatm c ib * roslamb))"

definition climatology_store :: "real \<Rightarrow> real \<Rightarrow> clim_coeffs \<Rightarrow> nat \<Rightarrow> real \<Rightarrow> real" where
  "climatology_store min_valid max_valid c ib rotoa =
     clamp_refl min_valid max_valid (climatology_roslamb c ib rotoa)"

text \<open>
  Lines 1310-1311:
  \<^verbatim>\<open>rotoa = (rsurf * bttatmg[ib] / (1.0 - bsatm[ib] * rsurf) + broatm[ib]) * btgo[ib];\<close>
  The source forms the two products in binary32 and the rest in double, and stores a
  binary32 value; here the arithmetic is exact.
\<close>

definition reconstruct_toa :: "clim_coeffs \<Rightarrow> nat \<Rightarrow> real \<Rightarrow> real" where
  "reconstruct_toa c ib rsurf =
     (rsurf * bttatmg c ib / (1 - bsatm c ib * rsurf) + broatm c ib) * btgo c ib"

section \<open>Maximum AOT index of the monotone part of roatm\<close>

text \<open>
  Lines 700-713. \<open>ia\<close> is the loop counter, \<open>iaMaxTemp\<close> the running value; the
  \<^verbatim>\<open>break\<close> returns at once. \<open>naot\<close> stands for \<^verbatim>\<open>NAOT_VALS\<close> and \<open>eps\<close> for
  \<^verbatim>\<open>ESPA_EPSILON\<close>.
\<close>

function iaMax_loop :: "nat \<Rightarrow> real \<Rightarrow> real arr \<Rightarrow> nat \<Rightarrow> nat \<Rightarrow> nat" where
  "iaMax_loop naot eps roatm ia iaMaxTemp =
     (if ia < naot then
        (let t = (if ia = naot - 1 then naot - 1 else iaMaxTemp)
         in if roatm ia - roatm (ia - 1) > eps
            then iaMax_loop naot eps roatm (ia + 1) t
            else ia - 1)
      else iaMaxTemp)"
  by pat_completeness auto
termination
  by (relation "measure (\<lambda>(naot, eps, roatm, ia, t). naot - ia)") auto

declare iaMax_loop.simps [simp del]

definition NAOT_VALS :: nat where
  "NAOT_VALS = 22"

text \<open>The AOT grid, as initialised at lines 476-478; it has \<open>NAOT_VALS\<close> entries.\<close>

definition aot550nm :: "real list" where
  "aot550nm = [0.01, 0.05, 0.10, 0.15, 0.20, 0.30, 0.40, 0.60, 0.80, 1.00, 1.20,
               1.40, 1.60, 1.80, 2.00, 2.30, 2.60, 3.00, 3.50, 4.00, 4.50, 5.00]"

text \<open>
  Lines 697-716: the band loop, \<^verbatim>\<open>for (ib = 0; ib <= SRL_BAND7; ib++)\<close>, that
  stores \<^verbatim>\<open>roatm_iaMax[ib]\<close>. The array is uninitialised before the loop, so its
  initial content is an argument.
\<close>

definition iaMax_band :: "real \<Rightarrow> (nat \<Rightarrow> real arr) \<Rightarrow> nat \<Rightarrow> nat arr \<Rightarrow> nat arr" where
  "iaMax_band eps roatm_arr ib roatm_iaMax =
     roatm_iaMax (ib := iaMax_loop NAOT_VALS eps (roatm_arr ib) 1 1)"

definition compute_roatm_iaMax :: "nat \<Rightarrow> real \<Rightarrow> (nat \<Rightarrow> real arr) \<Rightarrow> nat arr \<Rightarrow> nat arr" where
  "compute_roatm_iaMax srl_band7 eps roatm_arr roatm_iaMax0 =
     fold (iaMax_band eps roatm_arr) [0..<Suc srl_band7] roatm_iaMax0"

section \<open>Indexing of the climate modelling grid\<close>

text \<open>The C cast \<^verbatim>\<open>(int) x\<close> truncates towards zero.\<close>

definition c_int_cast :: "real \<Rightarrow> int" where
  "c_int_cast x = (if 0 \<le> x then \<lfloor>x\<rfloor> else \<lceil>x\<rceil>)"

text \<open>
  Modelled from the spec: the macros \<^verbatim>\<open>CMG_NBLAT\<close> and \<^verbatim>\<open>CMG_NBLON\<close> are declared
  outside this source file. The grid is global with cells of 0.05 by 0.05 degrees, which
  is 3600 lines by 7200 samples.
\<close>

definition CMG_NBLAT :: int where
  "CMG_NBLAT = 3600"

definition CMG_NBLON :: int where
  "CMG_NBLON = 7200"

record cmg_loc =
  ycmg :: real
  xcmg :: real
  lcmg :: int
  scmg :: int
  lcmg1 :: int
  scmg1 :: int

text \<open>Lines 804-832.\<close>

definition cmg_index :: "real \<Rightarrow> real \<Rightarrow> cmg_loc" where
  "cmg_index lat lon =
     (let y = (89.975 - lat) * 20;
          x = (179.975 + lon) * 20;
          l0 = c_int_cast y;
          s0 = c_int_cast x;
          l = (if l0 < 0 then 0 else if l0 \<ge> CMG_NBLAT then CMG_NBLAT - 1 else l0);
          s = (if s0 < 0 then 0 else if s0 \<ge> CMG_NBLON then CMG_NBLON - 1 else s0);
          s1 = (if s \<ge> CMG_NBLON - 1 then 0 else s + 1);
          l1 = (if l \<ge> CMG_NBLAT - 1 then l else l + 1)
      in \<lparr>ycmg = y, xcmg = x, lcmg = l, scmg = s, lcmg1 = l1, scmg1 = s1\<rparr>)"

section \<open>The band-ratio grid and its guard\<close>

text \<open>
  The \<^verbatim>\<open>int16\<close> ratio arrays of size \<^verbatim>\<open>RATIO_NBLAT x RATIO_NBLON\<close>. The slope and
  intercept arrays are overwritten in place by the guard; the others are only read.
\<close>

record ratio_grid =
  andwi :: "int arr"
  sndwi :: "int arr"
  ratiob1 :: "int arr"
  ratiob2 :: "int arr"
  ratiob7 :: "int arr"
  intratiob1 :: "int arr"
  intratiob2 :: "int arr"
  intratiob7 :: "int arr"
  slpratiob1 :: "int arr"
  slpratiob2 :: "int arr"
  slpratiob7 :: "int arr"

text \<open>Lines 851-870, for the grid cell \<open>p\<close> (repeated for each of the four neighbours).\<close>

definition ratio_guard :: "nat \<Rightarrow> ratio_grid \<Rightarrow> ratio_grid" where
  "ratio_guard p g =
     (let rb1 = real_of_int (ratiob1 g p) * 0.001;
          rb2 = real_of_int (ratiob2 g p) * 0.001
      in if rb2 > 1.0 \<or> rb1 > 1.0 \<or> rb2 < 0.1 \<or> rb1 < 0.1 then
           g\<lparr>slpratiob1 := (slpratiob1 g)(p := 0),
             slpratiob2 := (slpratiob2 g)(p := 0),
             slpratiob7 := (slpratiob7 g)(p := 0),
             intratiob1 := (intratiob1 g)(p := 550),
             intratiob2 := (intratiob2 g)(p := 600),
             intratiob7 := (intratiob7 g)(p := 2000)\<rparr>
         else if sndwi g p < 200 then
           g\<lparr>slpratiob1 := (slpratiob1 g)(p := 0),
             slpratiob2 := (slpratiob2 g)(p := 0),
             slpratiob7 := (slpratiob7 g)(p := 0),
             intratiob1 := (intratiob1 g)(p := ratiob1 g p),
             intratiob2 := (intratiob2 g)(p := ratiob2 g p),
             intratiob7 := (intratiob7 g)(p := ratiob7 g p)\<rparr>
         else g)"

section \<open>Constants declared outside the source file\<close>

text \<open>
  Modelled from the spec: the band enumerators are declared outside this source file.
  Band numbers are the indices plus one (the routine prints \<^verbatim>\<open>ib+1\<close> as the band
  number), and the enumerators \<^verbatim>\<open>DNL_BANDn\<close> and \<^verbatim>\<open>SRL_BANDn\<close> coincide for
  bands 1 to 7 (comment at line 1295).
\<close>

definition DNL_BAND1 :: nat where "DNL_BAND1 = 0"
definition DNL_BAND2 :: nat where "DNL_BAND2 = 1"
definition DNL_BAND4 :: nat where "DNL_BAND4 = 3"
definition DNL_BAND5 :: nat where "DNL_BAND5 = 4"
definition DNL_BAND7 :: nat where "DNL_BAND7 = 6"

text \<open>
  Modelled from the spec: the bit positions of the flag byte \<^verbatim>\<open>ipflag\<close>
  (FILL = 0, CLEAR = 1, WATER = 2, AERO1 = 6, AERO2 = 7).
\<close>

definition IPFLAG_FILL :: nat where "IPFLAG_FILL = 0"
definition IPFLAG_CLEAR :: nat where "IPFLAG_CLEAR = 1"
definition IPFLAG_WATER :: nat where "IPFLAG_WATER = 2"
definition AERO1_QA :: nat where "AERO1_QA = 6"
definition AERO2_QA :: nat where "AERO2_QA = 7"

text \<open>
  Modelled from the spec: \<^verbatim>\<open>lasrc_qa_is_water\<close> is declared outside this source
  file; it tests the WATER bit of the flag byte.
\<close>

definition lasrc_qa_is_water :: "8 word \<Rightarrow> bool" where
  "lasrc_qa_is_water f = bit f IPFLAG_WATER"

text \<open>
  Modelled from the spec: the Angstrom exponents of the three trial retrievals
  (\<open>LOW_EPS = 1.0\<close>, \<open>MOD_EPS = 1.75\<close>, \<open>HIGH_EPS = 2.5\<close>; the comments at lines 1023,
  1035 and 1044 give the same values).
\<close>

definition LOW_EPS :: real where "LOW_EPS = 1.0"
definition MOD_EPS :: real where "MOD_EPS = 1.75"
definition HIGH_EPS :: real where "HIGH_EPS = 2.5"

text \<open>
  Modelled from the spec: \<^verbatim>\<open>RATIO_NBLON\<close>, the number of samples of the ratio grid,
  which has the resolution of the climate modelling grid.
\<close>

definition RATIO_NBLON :: int where
  "RATIO_NBLON = 7200"

section \<open>Values of a float variable that need not be finite\<close>

text \<open>
  The value of a C \<^verbatim>\<open>float\<close> that may be a number, an infinity or NaN.
\<close>

datatype cfloat = Fin real | PInf | NInf | NaN

text \<open>
  The comparisons \<^verbatim>\<open>v >= c\<close> and \<^verbatim>\<open>v <= c\<close> of such a value with a number, as IEEE
  defines them: every comparison with NaN is false. \<open>cfloat_gt\<close> and \<open>cfloat_lt\<close> are
  the strict comparisons; the source does not use them, the statements about it do.
\<close>

fun cfloat_ge :: "cfloat \<Rightarrow> real \<Rightarrow> bool" where
  "cfloat_ge (Fin a) c = (a \<ge> c)"
| "cfloat_ge PInf c = True"
| "cfloat_ge NInf c = False"
| "cfloat_ge NaN c = False"

fun cfloat_le :: "cfloat \<Rightarrow> real \<Rightarrow> bool" where
  "cfloat_le (Fin a) c = (a \<le> c)"
| "cfloat_le PInf c = False"
| "cfloat_le NInf c = True"
| "cfloat_le NaN c = False"

fun cfloat_gt :: "cfloat \<Rightarrow> real \<Rightarrow> bool" where
  "cfloat_gt (Fin a) c = (a > c)"
| "cfloat_gt PInf c = True"
| "cfloat_gt NInf c = False"
| "cfloat_gt NaN c = False"

fun cfloat_lt :: "cfloat \<Rightarrow> real \<Rightarrow> bool" where
  "cfloat_lt (Fin a) c = (a < c)"
| "cfloat_lt PInf c = False"
| "cfloat_lt NInf c = True"
| "cfloat_lt NaN c = False"

text \<open>
  The IEEE quotient \<^verbatim>\<open>a / b\<close> of two numbers when a divisor that is zero is the
  positive zero: an infinity with the sign of the dividend, and NaN for \<^verbatim>\<open>0 / 0\<close>.
  The quotient of two numbers with a nonzero divisor is exact.
\<close>

definition c_divide :: "real \<Rightarrow> real \<Rightarrow> cfloat" where
  "c_divide a b =
     (if b \<noteq> 0 then Fin (a / b)
      else if 0 < a then PInf
      else if a < 0 then NInf
      else NaN)"

section \<open>Scene, collaborators and state\<close>

text \<open>Scene-centre geometry and atmosphere, as passed to \<^verbatim>\<open>atmcorlamb2\<close>.\<close>

record geom =
  xts :: real
  xtv :: real
  xmus :: real
  xmuv :: real
  xfi :: real
  cosxfi :: real
  pres :: real
  uoz :: real
  uwv :: real

text \<open>
  The outputs of \<^verbatim>\<open>atmcorlamb2\<close> that the routine reads (\<^verbatim>\<open>roslamb\<close>,
  \<^verbatim>\<open>xrorayp\<close> and \<^verbatim>\<open>next\<close> are never read).
\<close>

record atm_out =
  out_tgo :: real
  out_roatm :: real
  out_ttatmg :: real
  out_satm :: real

text \<open>The arguments of one call of the solver \<^verbatim>\<open>subaeroret_new\<close>, and its outputs.\<close>

record sub_call =
  c_water :: bool
  c_erelc :: "real arr"
  c_troatm :: "real arr"
  c_iaots :: int
  c_eps :: real

record sub_out =
  s_raot :: real
  s_residual :: real
  s_iaots :: int

record geo_coord =
  geo_lat :: real
  geo_lon :: real

text \<open>
  The functions that the routine calls and that are defined elsewhere. Arguments that
  are fixed for a scene (satellite, lookup tables, polynomial coefficients) are left out.
  \<^item> \<open>atmcorlamb2 g raot550nm ib rotoa eps\<close>: \<open>None\<close> when the return value is not
    \<^verbatim>\<open>SUCCESS\<close>.
  \<^item> \<open>find_closest_non_fill qaband nlines nsamps center_line center_samp half\<close>: the
    nearest line and sample, \<open>None\<close> when the function returns false.
  \<^item> \<open>from_space l s\<close>: latitude and longitude in radians, \<open>None\<close> on failure.
  \<^item> \<open>subaeroret_new water erelc troatm iaots eps\<close> returns the values it leaves
    in \<^verbatim>\<open>raot\<close>, \<^verbatim>\<open>residual\<close> and \<^verbatim>\<open>iaots\<close>.
  \<^item> \<open>atmcorlamb2_new iband raot550nm rotoa eps\<close> returns \<^verbatim>\<open>roslamb\<close>; its
    optical thickness and exponent are the entries of \<^verbatim>\<open>taero\<close> and \<^verbatim>\<open>teps\<close>
    in the final correction, hence of type \<open>cfloat\<close>.
  \<^item> \<open>fix_invalid_aerosols_landsat ipflag taero teps\<close>: the three arrays after the
    call, \<open>None\<close> when the return value is not \<^verbatim>\<open>SUCCESS\<close>.
  \<^item> \<open>aerosol_interp_landsat qaband ipflag a\<close>: the flag array and the aerosol array
    after the call.
\<close>

record externals =
  level1_qa_is_fill :: "16 word \<Rightarrow> bool"
  atmcorlamb2 :: "geom \<Rightarrow> real \<Rightarrow> nat \<Rightarrow> real \<Rightarrow> real \<Rightarrow> atm_out option"
  find_closest_non_fill ::
    "16 word arr \<Rightarrow> nat \<Rightarrow> nat \<Rightarrow> nat \<Rightarrow> nat \<Rightarrow> nat \<Rightarrow> (nat \<times> nat) option"
  from_space :: "real \<Rightarrow> real \<Rightarrow> geo_coord option"
  RAD2DEG :: real
  subaeroret_new :: "bool \<Rightarrow> real arr \<Rightarrow> real arr \<Rightarrow> int \<Rightarrow> real \<Rightarrow> sub_out"
  atmcorlamb2_new :: "nat \<Rightarrow> cfloat \<Rightarrow> real \<Rightarrow> cfloat \<Rightarrow> real"
  fix_invalid_aerosols_landsat ::
    "8 word arr \<Rightarrow> cfloat arr \<Rightarrow> cfloat arr \<Rightarrow> (8 word arr \<times> cfloat arr \<times> cfloat arr) option"
  aerosol_interp_landsat ::
    "16 word arr \<Rightarrow> 8 word arr \<Rightarrow> cfloat arr \<Rightarrow> 8 word arr \<times> cfloat arr"

text \<open>
  The inputs of the routine that it never writes, and the compile-time constants it is
  built with. \<open>SRL_BAND7\<close> is the last band of the band loops at lines 575, 656 and
  697; the size and half size of the aerosol window, the valid range of a reflectance and
  the two aerosol thresholds are macros as well.
\<close>

record scene =
  nlines :: nat
  nsamps :: nat
  qaband :: "16 word arr"
  geo :: geom
  SRL_BAND7 :: nat
  LAERO_WINDOW :: nat
  LHALF_AERO_WINDOW :: nat
  MIN_VALID_REFL :: real
  MAX_VALID_REFL :: real
  LOW_AERO_THRESH :: real
  AVG_AERO_THRESH :: real

text \<open>
  The arrays that the routine writes. \<^verbatim>\<open>teps\<close> receives the exponent chosen by the
  search, which need not be finite; \<^verbatim>\<open>taero\<close> has the same type because the filler
  and the interpolator take either array. \<open>atm_calls\<close> and \<open>sub_calls\<close> are not in
  the source: they log the calls of \<^verbatim>\<open>atmcorlamb2\<close> made by the climatology stage and
  the calls of \<^verbatim>\<open>subaeroret_new\<close>, in order.
\<close>

record sr_state =
  sband :: "nat \<Rightarrow> real arr"
  aerob1 :: "real arr"
  aerob2 :: "real arr"
  aerob4 :: "real arr"
  aerob5 :: "real arr"
  aerob7 :: "real arr"
  ipflag :: "8 word arr"
  taero :: "cfloat arr"
  teps :: "cfloat arr"
  grid :: ratio_grid
  coeffs :: clim_coeffs
  atm_calls :: "(geom \<times> real \<times> nat \<times> real) list"
  sub_calls :: "sub_call list"

text \<open>A loop whose body can fail: the first error ends it.\<close>

fun foldE :: "('a \<Rightarrow> 's \<Rightarrow> error + 's) \<Rightarrow> 'a list \<Rightarrow> 's \<Rightarrow> error + 's" where
  "foldE f [] s = Inr s"
| "foldE f (a # as) s = (case f a s of Inl e \<Rightarrow> Inl e | Inr s' \<Rightarrow> foldE f as s')"

section \<open>The climatology stage\<close>

text \<open>
  Lines 610-649, the body of the pixel loop for band \<open>ib\<close> and pixel \<open>i\<close>. The
  coefficients of the band are already in \<open>coeffs\<close>.
\<close>

definition climatology_pixel :: "externals \<Rightarrow> scene \<Rightarrow> nat \<Rightarrow> nat \<Rightarrow> sr_state \<Rightarrow> error + sr_state" where
  "climatology_pixel x sc ib i st =
     (if level1_qa_is_fill x (qaband sc i) then
        Inr (if ib = DNL_BAND1
             then st\<lparr>ipflag := (ipflag st)(i := push_bit IPFLAG_FILL 1)\<rparr>
             else st)
      else
        (let rotoa = sband st ib i;
             st1 = (if ib = DNL_BAND1 then st\<lparr>aerob1 := (aerob1 st)(i := rotoa)\<rparr>
                    else if ib = DNL_BAND2 then st\<lparr>aerob2 := (aerob2 st)(i := rotoa)\<rparr>
                    else if ib = DNL_BAND4 then st\<lparr>aerob4 := (aerob4 st)(i := rotoa)\<rparr>
                    else if ib = DNL_BAND5 then st\<lparr>aerob5 := (aerob5 st)(i := rotoa)\<rparr>
                    else if ib = DNL_BAND7 then st\<lparr>aerob7 := (aerob7 st)(i := rotoa)\<rparr>
                    else st);
             c = coeffs st
         in if btgo c ib * bttatmg c ib + bsatm c ib * (rotoa - btgo c ib * broatm c ib) = 0
            then Inl NonFinite
            else Inr (st1\<lparr>sband := (sband st1)
                        (ib := (sband st1 ib)
                           (i := climatology_store (MIN_VALID_REFL sc) (MAX_VALID_REFL sc)
                                   c ib rotoa))\<rparr>)))"

text \<open>
  Lines 577-650, the body of the band loop: one call of \<^verbatim>\<open>atmcorlamb2\<close> with
  \<^verbatim>\<open>rotoa = 0.0\<close>, \<^verbatim>\<open>raot550nm = aot550nm[1]\<close> and \<^verbatim>\<open>eps = 2.5\<close>, then the pixel
  loop.
\<close>

definition climatology_band :: "externals \<Rightarrow> scene \<Rightarrow> nat \<Rightarrow> sr_state \<Rightarrow> error + sr_state" where
  "climatology_band x sc ib st =
     (let raot550nm = aot550nm ! 1;
          eps = 2.5;
          st1 = st\<lparr>atm_calls := atm_calls st @ [(geo sc, raot550nm, ib, eps)]\<rparr>
      in case atmcorlamb2 x (geo sc) raot550nm ib 0 eps of
           None \<Rightarrow> Inl AtmcorError
         | Some out \<Rightarrow>
             (let c = coeffs st1;
                  st2 = st1\<lparr>coeffs := c\<lparr>btgo := (btgo c)(ib := out_tgo out),
                                          broatm := (broatm c)(ib := out_roatm out),
                                          bttatmg := (bttatmg c)(ib := out_ttatmg out),
                                          bsatm := (bsatm c)(ib := out_satm out)\<rparr>\<rparr>
              in foldE (climatology_pixel x sc ib) [0..<nlines sc * nsamps sc] st2))"

text \<open>Lines 575-650: \<^verbatim>\<open>for (ib = 0; ib <= SRL_BAND7; ib++)\<close>.\<close>

definition climatology_stage :: "externals \<Rightarrow> scene \<Rightarrow> sr_state \<Rightarrow> error + sr_state" where
  "climatology_stage x sc st = foldE (climatology_band x sc) [0..<Suc (SRL_BAND7 sc)] st"

section \<open>The aerosol inversion of one window\<close>

text \<open>
  Lines 749-770: the pixel whose radiometry is used for the window centred at
  \<open>(center_line, center_samp)\<close>; \<open>None\<close> when the centre is fill and the window
  has no other pixel (the \<^verbatim>\<open>continue\<close>).
\<close>

definition aero_pixel :: "externals \<Rightarrow> scene \<Rightarrow> nat \<Rightarrow> nat \<Rightarrow> (nat \<times> nat) option" where
  "aero_pixel x sc center_line center_samp =
     (if level1_qa_is_fill x (qaband sc (center_line * nsamps sc + center_samp))
      then find_closest_non_fill x (qaband sc) (nlines sc) (nsamps sc)
             center_line center_samp (LHALF_AERO_WINDOW sc)
      else Some (center_line, center_samp))"

text \<open>Lines 846-849: the four cells of the ratio grid around the pixel.\<close>

definition ratio_pix11 :: "cmg_loc \<Rightarrow> nat" where
  "ratio_pix11 loc = nat (lcmg loc * RATIO_NBLON + scmg loc)"

definition ratio_pix12 :: "cmg_loc \<Rightarrow> nat" where
  "ratio_pix12 loc = nat (lcmg loc * RATIO_NBLON + scmg1 loc)"

definition ratio_pix21 :: "cmg_loc \<Rightarrow> nat" where
  "ratio_pix21 loc = nat (lcmg1 loc * RATIO_NBLON + scmg loc)"

definition ratio_pix22 :: "cmg_loc \<Rightarrow> nat" where
  "ratio_pix22 loc = nat (lcmg1 loc * RATIO_NBLON + scmg1 loc)"

text \<open>Lines 851-933: the guard on the four cells, in the order 11, 12, 21, 22.\<close>

definition guard_neighbours :: "cmg_loc \<Rightarrow> ratio_grid \<Rightarrow> ratio_grid" where
  "guard_neighbours loc g =
     ratio_guard (ratio_pix22 loc) (ratio_guard (ratio_pix21 loc)
       (ratio_guard (ratio_pix12 loc) (ratio_guard (ratio_pix11 loc) g)))"

text \<open>Lines 836-843 and 942-957: bilinear interpolation of one unscaled ratio array.\<close>

definition ratio_interp :: "int arr \<Rightarrow> cmg_loc \<Rightarrow> real" where
  "ratio_interp a loc =
     (let u = ycmg loc - real_of_int (lcmg loc);
          v = xcmg loc - real_of_int (scmg loc);
          one_minus_u = 1 - u;
          one_minus_v = 1 - v
      in real_of_int (a (ratio_pix11 loc)) * 0.001 * (one_minus_u * one_minus_v)
         + real_of_int (a (ratio_pix12 loc)) * 0.001 * (one_minus_u * v)
         + real_of_int (a (ratio_pix21 loc)) * 0.001 * (u * one_minus_v)
         + real_of_int (a (ratio_pix22 loc)) * 0.001 * (u * v))"

text \<open>
  Lines 936-939 and 994-1002: the NDWI of the pixel from bands 5 and 7, limited by the
  two thresholds of cell 11. The divisor \<open>b5 + b7 * 0.5\<close> is checked by the caller.
\<close>

definition compute_xndwi :: "ratio_grid \<Rightarrow> cmg_loc \<Rightarrow> real \<Rightarrow> real \<Rightarrow> real" where
  "compute_xndwi g loc b5 b7 =
     (let ndwi_th1 = (real_of_int (andwi g (ratio_pix11 loc))
                        + 2 * real_of_int (sndwi g (ratio_pix11 loc))) * 0.001;
          ndwi_th2 = (real_of_int (andwi g (ratio_pix11 loc))
                        - 2 * real_of_int (sndwi g (ratio_pix11 loc))) * 0.001;
          xndwi = (b5 - b7 * 0.5) / (b5 + b7 * 0.5);
          xndwi1 = (if xndwi > ndwi_th1 then ndwi_th1 else xndwi)
      in if xndwi1 < ndwi_th2 then ndwi_th2 else xndwi1)"

text \<open>Lines 1005-1021: the band ratios and the reflectances of the land retrieval.\<close>

definition land_erelc :: "ratio_grid \<Rightarrow> cmg_loc \<Rightarrow> real \<Rightarrow> real arr" where
  "land_erelc g loc xndwi =
     (\<lambda>ib. - 1)
       (DNL_BAND1 := xndwi * ratio_interp (slpratiob1 g) loc + ratio_interp (intratiob1 g) loc,
        DNL_BAND2 := xndwi * ratio_interp (slpratiob2 g) loc + ratio_interp (intratiob2 g) loc,
        DNL_BAND4 := 1,
        DNL_BAND7 := xndwi * ratio_interp (slpratiob7 g) loc + ratio_interp (intratiob7 g) loc)"

definition land_troatm :: "sr_state \<Rightarrow> nat \<Rightarrow> real arr" where
  "land_troatm st curr_pix =
     (\<lambda>ib. 0)
       (DNL_BAND1 := aerob1 st curr_pix,
        DNL_BAND2 := aerob2 st curr_pix,
        DNL_BAND4 := aerob4 st curr_pix,
        DNL_BAND7 := aerob7 st curr_pix)"

text \<open>
  Lines 1066-1068: the Angstrom exponent at the vertex of the parabola through the three
  residuals. The source does not test the divisor \<open>xa - xb\<close>. It is zero exactly when
  \<open>xa\<close> and \<open>xb\<close> are equal, and the difference of two equal numbers is the positive
  zero; the dividend is then \<open>0.375 * xa\<close>, so \<^verbatim>\<open>epsmin\<close> is plus infinity for a
  positive \<open>xa\<close>, minus infinity for a negative one, and NaN when all three residuals
  are equal. The arithmetic on numbers is exact: the rounding of the quotient to the
  binary32 variable \<^verbatim>\<open>epsmin\<close> is not modelled here, and \<open>eps_choose\<close> below takes
  the value of that variable as an argument.
\<close>

definition parabolic_epsmin :: "real \<Rightarrow> real \<Rightarrow> real \<Rightarrow> cfloat" where
  "parabolic_epsmin residual1 residual2 residual3 =
     (let eps1 = LOW_EPS;
          eps2 = MOD_EPS;
          eps3 = HIGH_EPS;
          xa = (residual1 - residual3) * (eps2 - eps3);
          xb = (residual2 - residual3) * (eps1 - eps3)
      in c_divide (0.5 * (xa * (eps2 + eps3) - xb * (eps1 + eps3))) (xa - xb))"

text \<open>The outcome of the search: the values of \<^verbatim>\<open>eps\<close>, \<^verbatim>\<open>raot\<close> and
  \<^verbatim>\<open>residual\<close> at line 1090, and the log of solver calls.\<close>

record retrieval =
  r_eps :: cfloat
  r_raot :: real
  r_residual :: real
  r_calls :: "sub_call list"

text \<open>
  Lines 1069-1088: the choice of the final values from the value held by \<^verbatim>\<open>epsmin\<close>,
  whatever it is. \<open>o1\<close> and \<open>o3\<close> are the outputs of the first and third retrieval
  (\<^verbatim>\<open>residual1, sraot1\<close> and \<^verbatim>\<open>residual3, sraot3\<close>; \<^verbatim>\<open>iaots\<close> is the one left
  by the third), \<open>calls\<close> the log of the calls made so far. The three tests are those
  of the source, in its order. A value that passes the first test is a number, which is
  the exponent of the fourth retrieval. When no test holds (NaN) \<^verbatim>\<open>eps\<close> keeps the
  value of \<^verbatim>\<open>epsmin\<close>, and \<^verbatim>\<open>raot\<close> and \<^verbatim>\<open>residual\<close> those of the third
  retrieval.
\<close>

definition eps_choose ::
  "externals \<Rightarrow> real arr \<Rightarrow> real arr \<Rightarrow> sub_out \<Rightarrow> sub_out \<Rightarrow> sub_call list \<Rightarrow> cfloat
   \<Rightarrow> retrieval" where
  "eps_choose x erelc troatm o1 o3 calls epsmin =
     (let eps1 = LOW_EPS;
          eps3 = HIGH_EPS;
          unchanged = \<lparr>r_eps = epsmin, r_raot = s_raot o3, r_residual = s_residual o3,
                       r_calls = calls\<rparr>
      in if cfloat_ge epsmin LOW_EPS \<and> cfloat_le epsmin HIGH_EPS then
           (case epsmin of
              Fin e \<Rightarrow>
                (let o4 = subaeroret_new x False erelc troatm (s_iaots o3) e;
                     c4 = \<lparr>c_water = False, c_erelc = erelc, c_troatm = troatm,
                           c_iaots = s_iaots o3, c_eps = e\<rparr>
                 in \<lparr>r_eps = epsmin, r_raot = s_raot o4, r_residual = s_residual o4,
                      r_calls = calls @ [c4]\<rparr>)
            | _ \<Rightarrow> unchanged)
         else if cfloat_le epsmin LOW_EPS then
           \<lparr>r_eps = Fin eps1, r_raot = s_raot o1, r_residual = s_residual o1,
             r_calls = calls\<rparr>
         else if cfloat_ge epsmin HIGH_EPS then
           \<lparr>r_eps = Fin eps3, r_raot = s_raot o3, r_residual = s_residual o3,
             r_calls = calls\<rparr>
         else unchanged)"

text \<open>
  Lines 1023-1088: three retrievals with \<^verbatim>\<open>iaots\<close> carried from one call to the
  next, the vertex, and the choice of the final values.
\<close>

definition eps_search :: "externals \<Rightarrow> real arr \<Rightarrow> real arr \<Rightarrow> sub_call list \<Rightarrow> retrieval" where
  "eps_search x erelc troatm calls =
     (let eps1 = LOW_EPS;
          o1 = subaeroret_new x False erelc troatm 0 eps1;
          c1 = \<lparr>c_water = False, c_erelc = erelc, c_troatm = troatm, c_iaots = 0, c_eps = eps1\<rparr>;
          eps2 = MOD_EPS;
          o2 = subaeroret_new x False erelc troatm (s_iaots o1) eps2;
          c2 = \<lparr>c_water = False, c_erelc = erelc, c_troatm = troatm,
                c_iaots = s_iaots o1, c_eps = eps2\<rparr>;
          eps3 = HIGH_EPS;
          o3 = subaeroret_new x False erelc troatm (s_iaots o2) eps3;
          c3 = \<lparr>c_water = False, c_erelc = erelc, c_troatm = troatm,
                c_iaots = s_iaots o2, c_eps = eps3\<rparr>;
          epsmin = parabolic_epsmin (s_residual o1) (s_residual o2) (s_residual o3)
      in eps_choose x erelc troatm o1 o3 (calls @ [c1, c2, c3]) epsmin)"

text \<open>
  Line 1120, \<^verbatim>\<open>(ros5 - ros4) / (ros5 + ros4) > 0\<close>. When the divisor is zero the
  IEEE quotient has the sign of the dividend (or is NaN when both are zero), so the
  comparison holds exactly when the dividend is positive.
\<close>

definition ndvi_positive :: "real \<Rightarrow> real \<Rightarrow> bool" where
  "ndvi_positive ros5 ros4 =
     (if ros5 + ros4 = 0 then 0 < ros5 - ros4 else 0 < (ros5 - ros4) / (ros5 + ros4))"

text \<open>
  Lines 1092-1135: true when the clear bit is set, false when the water bit is set.
  The divisor \<open>xmus_v\<close> is checked by the caller.
\<close>

definition land_clear :: "externals \<Rightarrow> sr_state \<Rightarrow> nat \<Rightarrow> retrieval \<Rightarrow> real \<Rightarrow> real arr \<Rightarrow> bool" where
  "land_clear x st curr_pix r xmus_v troatm =
     (let corf = r_raot r / xmus_v
      in if r_residual r < 0.015 + 0.005 * corf + 0.10 * troatm DNL_BAND7 then
           (let ros5 = atmcorlamb2_new x DNL_BAND5 (Fin (r_raot r)) (aerob5 st curr_pix)
                         (r_eps r);
                ros4 = atmcorlamb2_new x DNL_BAND4 (Fin (r_raot r)) (aerob4 st curr_pix)
                         (r_eps r)
            in ros5 > 0.1 \<and> ndvi_positive ros5 ros4)
         else False)"

text \<open>
  Lines 1141-1153: the band ratios and reflectances of the water retrieval. Only
  \<^verbatim>\<open>erelc\<close> is reset by the loop at line 1142; \<^verbatim>\<open>troatm\<close> is the array left by
  the land retrieval with four entries overwritten.
\<close>

definition water_erelc :: "real arr" where
  "water_erelc =
     (\<lambda>ib. - 1) (DNL_BAND1 := 1, DNL_BAND4 := 1, DNL_BAND5 := 1, DNL_BAND7 := 1)"

definition water_troatm :: "sr_state \<Rightarrow> nat \<Rightarrow> real arr \<Rightarrow> real arr" where
  "water_troatm st curr_pix troatm =
     troatm (DNL_BAND1 := aerob1 st curr_pix,
             DNL_BAND4 := aerob4 st curr_pix,
             DNL_BAND5 := aerob5 st curr_pix,
             DNL_BAND7 := aerob7 st curr_pix)"

text \<open>Lines 1139-1189, the body of \<^verbatim>\<open>if (lasrc_qa_is_water (...))\<close>.\<close>

definition water_retrieval :: "externals \<Rightarrow> real \<Rightarrow> nat \<Rightarrow> nat \<Rightarrow> real arr \<Rightarrow> sr_state \<Rightarrow> sr_state" where
  "water_retrieval x xmus_v center_pix curr_pix troatm st =
     (let erelc = water_erelc;
          troatm1 = water_troatm st curr_pix troatm;
          eps = 1.5;
          out = subaeroret_new x True erelc troatm1 0 eps;
          raot = s_raot out;
          residual = s_residual out;
          corf = raot / xmus_v;
          ros1 = atmcorlamb2_new x DNL_BAND1 (Fin raot) (aerob1 st curr_pix) (Fin eps)
      in st\<lparr>teps := (teps st)(center_pix := Fin eps),
            taero := (taero st)(center_pix := Fin raot),
            ipflag := (ipflag st)
              (center_pix := (if residual > 0.010 + 0.005 * corf \<or> ros1 < 0 then 0
                              else push_bit IPFLAG_CLEAR 1 OR push_bit IPFLAG_WATER 1)),
            sub_calls := sub_calls st
              @ [\<lparr>c_water = True, c_erelc = erelc, c_troatm = troatm1,
                   c_iaots = 0, c_eps = eps\<rparr>]\<rparr>)"

text \<open>
  Lines 804-1135 for the window centre \<open>center_pix\<close>, with the radiometry of
  \<open>curr_pix\<close> located at \<open>(lat, lon)\<close> degrees: the land retrieval and the
  clear or water bit.
\<close>

definition land_retrieve ::
  "externals \<Rightarrow> scene \<Rightarrow> nat \<Rightarrow> nat \<Rightarrow> real \<Rightarrow> real \<Rightarrow> sr_state \<Rightarrow> error + sr_state" where
  "land_retrieve x sc center_pix curr_pix lat lon st =
     (let loc = cmg_index lat lon;
          g = guard_neighbours loc (grid st);
          b5 = sband st DNL_BAND5 curr_pix;
          b7 = sband st DNL_BAND7 curr_pix
      in if b5 + b7 * 0.5 = 0 \<or> xmus (geo sc) = 0 then Inl NonFinite
         else
           (let xndwi = compute_xndwi g loc b5 b7;
                erelc = land_erelc g loc xndwi;
                troatm = land_troatm st curr_pix;
                r = eps_search x erelc troatm (sub_calls st);
                clear = land_clear x st curr_pix r (xmus (geo sc)) troatm
            in Inr (st\<lparr>grid := g,
                       teps := (teps st)(center_pix := r_eps r),
                       taero := (taero st)(center_pix := Fin (r_raot r)),
                       sub_calls := r_calls r,
                       ipflag := (ipflag st)
                         (center_pix := ipflag st center_pix OR
                            (if clear then push_bit IPFLAG_CLEAR 1
                             else push_bit IPFLAG_WATER 1))\<rparr>)))"

text \<open>
  Lines 804-1189: the land retrieval, then the water retrieval when the centre is
  flagged as water. \<^verbatim>\<open>troatm\<close> still holds what the land retrieval put in it.
\<close>

definition aerosol_retrieve ::
  "externals \<Rightarrow> scene \<Rightarrow> nat \<Rightarrow> nat \<Rightarrow> real \<Rightarrow> real \<Rightarrow> sr_state \<Rightarrow> error + sr_state" where
  "aerosol_retrieve x sc center_pix curr_pix lat lon st =
     (case land_retrieve x sc center_pix curr_pix lat lon st of
        Inl e \<Rightarrow> Inl e
      | Inr st1 \<Rightarrow>
          Inr (if lasrc_qa_is_water (ipflag st1 center_pix)
               then water_retrieval x (xmus (geo sc)) center_pix curr_pix
                      (land_troatm st curr_pix) st1
               else st1))"

text \<open>Lines 742-1197, the body of the window loops.\<close>

definition aerosol_window :: "externals \<Rightarrow> scene \<Rightarrow> nat \<Rightarrow> nat \<Rightarrow> sr_state \<Rightarrow> error + sr_state" where
  "aerosol_window x sc center_line center_samp st =
     (case aero_pixel x sc center_line center_samp of
        None \<Rightarrow> Inr st
      | Some (i, j) \<Rightarrow>
          (case from_space x (real i - 0.5) (real j + 0.5) of
             None \<Rightarrow> Inl GeolocError
           | Some g \<Rightarrow>
               aerosol_retrieve x sc (center_line * nsamps sc + center_samp)
                 (i * nsamps sc + j) (geo_lat g * RAD2DEG x) (geo_lon g * RAD2DEG x) st))"

text \<open>
  The values of the counter of \<^verbatim>\<open>for (i = first; i < n; i += w)\<close>. With \<open>w = 0\<close>
  the C loop does not end; the caller checks it.
\<close>

function window_centers :: "nat \<Rightarrow> nat \<Rightarrow> nat \<Rightarrow> nat list" where
  "window_centers w n i = (if i < n \<and> 0 < w then i # window_centers w n (i + w) else [])"
  by pat_completeness auto
termination
  by (relation "measure (\<lambda>(w, n, i). n - i)") auto

declare window_centers.simps [simp del]

text \<open>Lines 736-1198. A window of size zero with a first line inside the image never
  advances: \<open>NoProgress\<close>.\<close>

definition aerosol_window_pass :: "externals \<Rightarrow> scene \<Rightarrow> sr_state \<Rightarrow> error + sr_state" where
  "aerosol_window_pass x sc st =
     (if LAERO_WINDOW sc = 0 \<and> LHALF_AERO_WINDOW sc < nlines sc then Inl NoProgress
      else foldE
             (\<lambda>i. foldE (aerosol_window x sc i)
                     (window_centers (LAERO_WINDOW sc) (nsamps sc) (LHALF_AERO_WINDOW sc)))
             (window_centers (LAERO_WINDOW sc) (nlines sc) (LHALF_AERO_WINDOW sc)) st)"

section \<open>The final correction\<close>

text \<open>Lines 1324-1340: the aerosol bits of the flag byte, set on band 1.\<close>

definition aero_qa :: "scene \<Rightarrow> 8 word \<Rightarrow> real \<Rightarrow> 8 word" where
  "aero_qa sc f tmpf =
     (if tmpf \<le> LOW_AERO_THRESH sc then f OR push_bit AERO1_QA 1
      else if tmpf < AVG_AERO_THRESH sc then f OR push_bit AERO2_QA 1
      else (f OR push_bit AERO1_QA 1) OR push_bit AERO2_QA 1)"

text \<open>Lines 1304-1349, the body of the pixel loop for band \<open>ib\<close> and pixel \<open>i\<close>.\<close>

definition final_pixel :: "externals \<Rightarrow> scene \<Rightarrow> nat \<Rightarrow> nat \<Rightarrow> sr_state \<Rightarrow> error + sr_state" where
  "final_pixel x sc ib i st =
     (if level1_qa_is_fill x (qaband sc i) then Inr st
      else
        (let rsurf = sband st ib i;
             c = coeffs st
         in if 1 - bsatm c ib * rsurf = 0 then Inl NonFinite
            else
              (let rotoa = reconstruct_toa c ib rsurf;
                   roslamb = atmcorlamb2_new x ib (taero st i) rotoa (teps st i);
                   st1 = (if ib = DNL_BAND1
                          then st\<lparr>ipflag := (ipflag st)
                                   (i := aero_qa sc (ipflag st i) \<bar>rsurf - roslamb\<bar>)\<rparr>
                          else st)
               in Inr (st1\<lparr>sband := (sband st1)
                         (ib := (sband st1 ib)
                            (i := clamp_refl (MIN_VALID_REFL sc) (MAX_VALID_REFL sc)
                                    roslamb))\<rparr>))))"

text \<open>Lines 1297-1351: \<^verbatim>\<open>for (ib = 0; ib <= DNL_BAND7; ib++)\<close> over all pixels.\<close>

definition final_correction :: "externals \<Rightarrow> scene \<Rightarrow> sr_state \<Rightarrow> error + sr_state" where
  "final_correction x sc st =
     foldE (\<lambda>ib. foldE (final_pixel x sc ib) [0..<nlines sc * nsamps sc])
       [0..<Suc DNL_BAND7] st"

text \<open>
  The values of the flag byte that classify a retrieval: clear only, water only, clear
  and water (valid water), and none (invalid retrieval).
\<close>

definition retrieval_flags :: "8 word set" where
  "retrieval_flags = {push_bit IPFLAG_CLEAR 1, push_bit IPFLAG_WATER 1,
                      push_bit IPFLAG_CLEAR 1 OR push_bit IPFLAG_WATER 1, 0}"

section \<open>The stages in order\<close>

text \<open>
  Lines 570-1198: the climatology stage, then the aerosol inversion. The retrieval of
  the polynomial coefficients between the two (lines 652-727) writes none of the arrays
  of the state; its results reach the inversion inside \<^verbatim>\<open>subaeroret_new\<close> and
  \<^verbatim>\<open>atmcorlamb2_new\<close>.
\<close>

definition sr_through_inversion :: "externals \<Rightarrow> scene \<Rightarrow> sr_state \<Rightarrow> error + sr_state" where
  "sr_through_inversion x sc st =
     (case climatology_stage x sc st of
        Inl e \<Rightarrow> Inl e
      | Inr st1 \<Rightarrow> aerosol_window_pass x sc st1)"

text \<open>
  Lines 570-1351: all stages up to the final correction, with the filler (line 1242) and
  the two interpolations (lines 1267 and 1288) in between.
\<close>

definition compute_landsat_sr_refl :: "externals \<Rightarrow> scene \<Rightarrow> sr_state \<Rightarrow> error + sr_state" where
  "compute_landsat_sr_refl x sc st =
     (case sr_through_inversion x sc st of
        Inl e \<Rightarrow> Inl e
      | Inr st2 \<Rightarrow>
          (case fix_invalid_aerosols_landsat x (ipflag st2) (taero st2) (teps st2) of
             None \<Rightarrow> Inl AerosolFixError
           | Some fixed \<Rightarrow>
               (let i1 = aerosol_interp_landsat x (qaband sc) (fst fixed) (fst (snd fixed));
                    i2 = aerosol_interp_landsat x (qaband sc) (fst i1) (snd (snd fixed))
                in final_correction x sc
                     (st2\<lparr>ipflag := fst i2, taero := snd i1, teps := snd i2\<rparr>))))"

section \<open>Concrete inputs used by the witnesses\<close>

text \<open>
  Scene coefficients of spec scenario S1 (the same for every band), with the valid
  reflectance range \<open>[-0.2, 1.6]\<close>.
\<close>

definition s1_coeffs :: clim_coeffs where
  "s1_coeffs = \<lparr>btgo = (\<lambda>_. 98/100), broatm = (\<lambda>_. 5/100),
                 bttatmg = (\<lambda>_. 9/10), bsatm = (\<lambda>_. 1/10)\<rparr>"

text \<open>
  Spec scenario S6: a ratio grid whose cells all have \<open>ratiob1 = 50\<close>, that is
  \<open>rb1 = 0.05\<close>, and slopes and intercepts that differ from the defaults.
\<close>

definition s6_grid :: ratio_grid where
  "s6_grid = \<lparr>andwi = (\<lambda>_. 100), sndwi = (\<lambda>_. 300), ratiob1 = (\<lambda>_. 50),
     ratiob2 = (\<lambda>_. 500), ratiob7 = (\<lambda>_. 1500), intratiob1 = (\<lambda>_. 480),
     intratiob2 = (\<lambda>_. 520), intratiob7 = (\<lambda>_. 1400), slpratiob1 = (\<lambda>_. 30),
     slpratiob2 = (\<lambda>_. 40), slpratiob7 = (\<lambda>_. -20)\<rparr>"

text \<open>
  A solver that answers the residuals \<open>r1\<close>, \<open>r2\<close> and \<open>r3\<close> at the exponents
  \<open>LOW_EPS\<close>, \<open>MOD_EPS\<close> and any other one, an optical thickness of a tenth of the
  search index it is given, and the next search index.
\<close>

definition stub_sub ::
  "real \<Rightarrow> real \<Rightarrow> real \<Rightarrow> bool \<Rightarrow> real arr \<Rightarrow> real arr \<Rightarrow> int \<Rightarrow> real \<Rightarrow> sub_out" where
  "stub_sub r1 r2 r3 water erelc troatm iaots eps =
     \<lparr>s_raot = real_of_int iaots / 10,
      s_residual = (if eps = LOW_EPS then r1 else if eps = MOD_EPS then r2 else r3),
      s_iaots = iaots + 1\<rparr>"

text \<open>
  Collaborators for the concrete runs: the fill bit of the level-1 QA word is bit 0, the
  atmosphere is that of scenario S1, every pixel is located at latitude and longitude 0,
  the substitute of a fill centre is pixel \<open>(0, 0)\<close>, the corrected reflectance of
  band \<open>ib\<close> is the reflectance minus a tenth of the optical thickness plus
  \<open>ib / 100\<close>, and the filler and the interpolator change nothing.
\<close>

definition stub_ext :: "real \<Rightarrow> real \<Rightarrow> real \<Rightarrow> externals" where
  "stub_ext r1 r2 r3 =
     \<lparr>level1_qa_is_fill = (\<lambda>q. bit q 0),
      atmcorlamb2 = (\<lambda>g raot550nm ib rotoa eps.
         Some \<lparr>out_tgo = 98/100, out_roatm = 5/100, out_ttatmg = 9/10, out_satm = 1/10\<rparr>),
      find_closest_non_fill = (\<lambda>qa nl ns cl cs h. Some (0, 0)),
      from_space = (\<lambda>l s. Some \<lparr>geo_lat = 0, geo_lon = 0\<rparr>),
      RAD2DEG = 180 / 3.14159265,
      subaeroret_new = stub_sub r1 r2 r3,
      atmcorlamb2_new = (\<lambda>ib raot550nm rotoa eps.
         rotoa - (case raot550nm of Fin a \<Rightarrow> a | _ \<Rightarrow> 0) / 10 + real ib / 100),
      fix_invalid_aerosols_landsat = (\<lambda>f ta te. Some (f, ta, te)),
      aerosol_interp_landsat = (\<lambda>qa f a. (f, a))\<rparr>"

text \<open>
  A scene of two lines and two samples with one window of size 3, centred on line 1 and
  sample 1, that is on pixel 3, which is the only fill pixel; and the same scene with no
  fill pixel.
\<close>

definition s_scene :: scene where
  "s_scene =
     \<lparr>nlines = 2, nsamps = 2, qaband = (\<lambda>i. if i = 3 then 1 else 0),
      geo = \<lparr>xts = 60, xtv = 0, xmus = 1/2, xmuv = 1, xfi = 0, cosxfi = 1,
              pres = 1013, uoz = 3/10, uwv = 2\<rparr>,
      SRL_BAND7 = 6, LAERO_WINDOW = 3, LHALF_AERO_WINDOW = 1,
      MIN_VALID_REFL = -2/10, MAX_VALID_REFL = 16/10,
      LOW_AERO_THRESH = 1/100, AVG_AERO_THRESH = 5/100\<rparr>"

definition s_scene_nofill :: scene where
  "s_scene_nofill = s_scene\<lparr>qaband := (\<lambda>i. 0)\<rparr>"

text \<open>
  The arrays as they are when the routine starts: top-of-atmosphere reflectance 0.2 in
  every band and pixel, and every other array zero.
\<close>

definition s_init :: sr_state where
  "s_init =
     \<lparr>sband = (\<lambda>ib i. 2/10),
      aerob1 = (\<lambda>i. 0), aerob2 = (\<lambda>i. 0), aerob4 = (\<lambda>i. 0),
      aerob5 = (\<lambda>i. 0), aerob7 = (\<lambda>i. 0),
      ipflag = (\<lambda>i. 0),
      taero = (\<lambda>i. Fin 0), teps = (\<lambda>i. Fin 0),
      grid = s6_grid,
      coeffs = \<lparr>btgo = (\<lambda>ib. 0), broatm = (\<lambda>ib. 0), bttatmg = (\<lambda>ib. 0),
                 bsatm = (\<lambda>ib. 0)\<rparr>,
      atm_calls = [], sub_calls = []\<rparr>"

text \<open>
  The arrays as they can be when the aerosol inversion starts: the snapshots of the
  five bands differ from each other, and pixel 3 carries the fill flag, a reflectance of
  -9999 and snapshots that were never written.
\<close>

definition s_win :: sr_state where
  "s_win =
     \<lparr>sband = (\<lambda>ib i. if i = 3 then - 9999 else 15/100),
      aerob1 = (\<lambda>i. if i = 3 then 0 else 30/100),
      aerob2 = (\<lambda>i. if i = 3 then 0 else 25/100),
      aerob4 = (\<lambda>i. if i = 3 then 0 else 20/100),
      aerob5 = (\<lambda>i. if i = 3 then 0 else 35/100),
      aerob7 = (\<lambda>i. if i = 3 then 0 else 10/100),
      ipflag = (\<lambda>i. if i = 3 then 1 else 0),
      taero = (\<lambda>i. Fin 0), teps = (\<lambda>i. Fin 0),
      grid = s6_grid,
      coeffs = s1_coeffs,
      atm_calls = [], sub_calls = []\<rparr>"

section \<open>Results\<close>

subsection \<open>The reconstruction formula and the correction formula\<close>

text \<open>
  With exact arithmetic the formula of lines 1310-1311 undoes the one of lines 639-640
  wherever both divisors are nonzero. This is a statement about the two formulas; it
  says nothing about the rounding of the binary32 values that the routine stores, which
  is not part of the model.
\<close>

lemma reconstruct_climatology_exact:
  assumes D: "btgo c ib * bttatmg c ib
                + bsatm c ib * (rotoa - btgo c ib * broatm c ib) \<noteq> 0"
    and E: "1 - bsatm c ib * climatology_roslamb c ib rotoa \<noteq> 0"
  shows "reconstruct_toa c ib (climatology_roslamb c ib rotoa) = rotoa"
proof -
  define g where "g = btgo c ib"
  define t where "t = bttatmg c ib"
  define s where "s = bsatm c ib"
  define a where "a = broatm c ib"
  define r where "r = rotoa - g * a"
  define d where "d = g * t + s * r"
  have ros: "climatology_roslamb c ib rotoa = r / d"
    by (simp add: climatology_roslamb_def Let_def g_def t_def s_def a_def r_def d_def)
  have d0: "d \<noteq> 0"
    using D by (simp add: d_def r_def g_def t_def s_def a_def)
  have one: "1 - s * (r / d) = g * t / d"
    using d0 by (simp add: d_def field_simps)
  have gt0: "g * t \<noteq> 0"
    using E d0 unfolding ros s_def [symmetric] one by simp
  then have g0: "g \<noteq> 0" and t0: "t \<noteq> 0"
    by auto
  have "(r / d) * t / (1 - s * (r / d)) = r / g"
    unfolding one using d0 g0 t0 by (simp add: field_simps)
  then have "((r / d) * t / (1 - s * (r / d)) + a) * g = rotoa"
    using g0 by (simp add: r_def field_simps)
  then show ?thesis
    unfolding reconstruct_toa_def ros
    by (simp add: g_def t_def s_def a_def)
qed

subsection \<open>The maximum AOT index\<close>

lemma iaMax_loop_none:
  "1 \<le> ia \<Longrightarrow> ia < naot
   \<Longrightarrow> (\<forall>k. ia \<le> k \<and> k < naot \<longrightarrow> roatm k - roatm (k - 1) > eps)
   \<Longrightarrow> iaMax_loop naot eps roatm ia t = naot - 1"
proof (induction naot eps roatm ia t rule: iaMax_loop.induct)
  case (1 naot eps roatm ia t)
  show ?case
  proof (cases "ia + 1 < naot")
    case True
    then have "iaMax_loop naot eps roatm (ia + 1) (if ia = naot - 1 then naot - 1 else t)
                 = naot - 1"
      using 1 by (intro "1.IH") auto
    then show ?thesis
      using 1 by (subst iaMax_loop.simps) (simp add: Let_def)
  next
    case False
    then have e: "ia = naot - 1"
      using 1 by simp
    have gt: "roatm ia - roatm (ia - 1) > eps"
      using "1.prems" by simp
    have "iaMax_loop naot eps roatm (ia + 1) (naot - 1) = naot - 1"
      using False by (subst iaMax_loop.simps) simp
    then show ?thesis
      using "1.prems"(2) e gt by (subst iaMax_loop.simps) (simp add: Let_def)
  qed
qed

lemma iaMax_loop_first:
  "1 \<le> ia \<Longrightarrow> ia \<le> ia0 \<Longrightarrow> ia0 < naot \<Longrightarrow> roatm ia0 - roatm (ia0 - 1) \<le> eps
   \<Longrightarrow> (\<forall>k. ia \<le> k \<and> k < ia0 \<longrightarrow> roatm k - roatm (k - 1) > eps)
   \<Longrightarrow> iaMax_loop naot eps roatm ia t = ia0 - 1"
proof (induction naot eps roatm ia t rule: iaMax_loop.induct)
  case (1 naot eps roatm ia t)
  show ?case
  proof (cases "ia = ia0")
    case True
    then show ?thesis
      using 1 by (subst iaMax_loop.simps) (simp add: Let_def)
  next
    case False
    then have lt: "ia < ia0"
      using 1 by simp
    then have gt: "roatm ia - roatm (ia - 1) > eps"
      using 1 by simp
    have "iaMax_loop naot eps roatm (ia + 1) (if ia = naot - 1 then naot - 1 else t) = ia0 - 1"
      using 1 lt gt by (intro "1.IH") auto
    then show ?thesis
      using 1 lt gt by (subst iaMax_loop.simps) (simp add: Let_def)
  qed
qed

lemma fold_iaMax_band:
  "ib < n \<Longrightarrow> fold (iaMax_band eps roatm_arr) [0..<n] m ib
                 = iaMax_loop NAOT_VALS eps (roatm_arr ib) 1 1"
proof (induction n arbitrary: m)
  case 0
  then show ?case by simp
next
  case (Suc n)
  show ?case
  proof (cases "ib = n")
    case True
    then show ?thesis by (simp add: iaMax_band_def)
  next
    case False
    then have "ib < n"
      using Suc.prems by simp
    then show ?thesis
      using Suc.IH by (simp add: iaMax_band_def False)
  qed
qed

lemma fold_iaMax_band_other:
  "n \<le> ib \<Longrightarrow> fold (iaMax_band eps roatm_arr) [0..<n] m ib = m ib"
  by (induction n arbitrary: m) (simp_all add: iaMax_band_def)

text \<open>
  Claim C7, as stated, ranges over the bands 0 to 7. The band loop of line 697 ends at
  \<^verbatim>\<open>SRL_BAND7\<close>, which is the index 6 of band 7 (the enumerators \<^verbatim>\<open>DNL_BAND7\<close> and
  \<^verbatim>\<open>SRL_BAND7\<close> coincide, line 1295), so the loop never assigns
  \<^verbatim>\<open>roatm_iaMax[7]\<close>. With a table that grows by 1 at every step, so that every
  consecutive difference exceeds \<^verbatim>\<open>ESPA_EPSILON\<close> = 1e-5, and an array that holds 0
  before the loop, the entry of index 7 is 0 after the loop and not
  \<open>NAOT_VALS - 1 = 21\<close>.
\<close>

theorem roatm_iaMax_band_range_counterexample:
  "\<not> (\<exists>k. 1 \<le> k \<and> k < NAOT_VALS \<and> real k - real (k - 1) \<le> 1/100000)
   \<and> DNL_BAND7 = 6
   \<and> compute_roatm_iaMax DNL_BAND7 (1/100000) (\<lambda>ib ia. real ia) (\<lambda>_. 0) 7 = 0
   \<and> NAOT_VALS - 1 = 21"
proof -
  have "\<not> (\<exists>k. 1 \<le> k \<and> k < NAOT_VALS \<and> real k - real (k - 1) \<le> 1/100000)"
    by (auto simp: of_nat_diff)
  moreover have "compute_roatm_iaMax DNL_BAND7 (1/100000) (\<lambda>ib ia. real ia) (\<lambda>_. 0) 7 = 0"
    unfolding compute_roatm_iaMax_def
    by (subst fold_iaMax_band_other) (simp_all add: DNL_BAND7_def)
  ultimately show ?thesis
    by (simp add: DNL_BAND7_def NAOT_VALS_def)
qed

text \<open>
  Claim C7, amended. For every band \<open>ib\<close> in \<open>[0..6]\<close>, the bands of the loop that
  ends at \<^verbatim>\<open>SRL_BAND7\<close> = 6, \<^verbatim>\<open>roatm_iaMax[ib]\<close> is \<open>ia0 - 1\<close> for the smallest
  index \<open>ia0\<close> in \<open>[1, NAOT_VALS - 1]\<close> whose difference
  \<open>roatm_arr[ib][ia0] - roatm_arr[ib][ia0 - 1]\<close> is at most \<^verbatim>\<open>ESPA_EPSILON\<close>, and it
  is \<open>NAOT_VALS - 1\<close> when every consecutive difference exceeds \<^verbatim>\<open>ESPA_EPSILON\<close>.
  The loop writes no entry of an index above 6.
\<close>

theorem roatm_iaMax_first_flat:
  assumes "ib \<le> DNL_BAND7"
  shows "DNL_BAND7 = 6
       \<and> (\<forall>ia0. 1 \<le> ia0 \<and> ia0 < NAOT_VALS
              \<and> roatm_arr ib ia0 - roatm_arr ib (ia0 - 1) \<le> eps
              \<and> (\<forall>k. 1 \<le> k \<and> k < ia0 \<longrightarrow> roatm_arr ib k - roatm_arr ib (k - 1) > eps)
            \<longrightarrow> compute_roatm_iaMax DNL_BAND7 eps roatm_arr m0 ib = ia0 - 1)
       \<and> ((\<forall>k. 1 \<le> k \<and> k < NAOT_VALS \<longrightarrow> roatm_arr ib k - roatm_arr ib (k - 1) > eps)
            \<longrightarrow> compute_roatm_iaMax DNL_BAND7 eps roatm_arr m0 ib = NAOT_VALS - 1)
       \<and> (\<forall>jb. DNL_BAND7 < jb
            \<longrightarrow> compute_roatm_iaMax DNL_BAND7 eps roatm_arr m0 jb = m0 jb)"
proof -
  have r: "compute_roatm_iaMax DNL_BAND7 eps roatm_arr m0 ib
             = iaMax_loop NAOT_VALS eps (roatm_arr ib) 1 1"
    unfolding compute_roatm_iaMax_def using assms by (intro fold_iaMax_band) simp
  have a: "iaMax_loop NAOT_VALS eps (roatm_arr ib) 1 1 = ia0 - 1"
    if "1 \<le> ia0" "ia0 < NAOT_VALS" "roatm_arr ib ia0 - roatm_arr ib (ia0 - 1) \<le> eps"
       "\<forall>k. 1 \<le> k \<and> k < ia0 \<longrightarrow> roatm_arr ib k - roatm_arr ib (k - 1) > eps" for ia0
    using that by (intro iaMax_loop_first) auto
  have b: "iaMax_loop NAOT_VALS eps (roatm_arr ib) 1 1 = NAOT_VALS - 1"
    if "\<forall>k. 1 \<le> k \<and> k < NAOT_VALS \<longrightarrow> roatm_arr ib k - roatm_arr ib (k - 1) > eps"
    using that by (intro iaMax_loop_none) (auto simp: NAOT_VALS_def)
  have c: "compute_roatm_iaMax DNL_BAND7 eps roatm_arr m0 jb = m0 jb" if "DNL_BAND7 < jb" for jb
    unfolding compute_roatm_iaMax_def using that by (intro fold_iaMax_band_other) simp
  have d: "DNL_BAND7 = 6"
    by (simp add: DNL_BAND7_def)
  show ?thesis
    unfolding r using a b c d by blast
qed

theorem roatm_iaMax_first_flat_witness:
  "compute_roatm_iaMax DNL_BAND7 (1/100000) (\<lambda>ib ia. real (min ia 2)) (\<lambda>_. 0) 6 = 2
   \<and> compute_roatm_iaMax DNL_BAND7 (1/100000) (\<lambda>ib ia. real ia) (\<lambda>_. 0) 6 = 21
   \<and> compute_roatm_iaMax DNL_BAND7 (1/100000) (\<lambda>ib ia. real ia) (\<lambda>_. 5) 7 = 5"
proof -
  have h: "6 \<le> DNL_BAND7"
    by (simp add: DNL_BAND7_def)
  have g: "DNL_BAND7 < 7"
    by (simp add: DNL_BAND7_def)
  have d1: "\<forall>k. 1 \<le> k \<and> k < (3::nat)
               \<longrightarrow> real (min k 2) - real (min (k - 1) 2) > 1/100000"
    by (auto simp: min_def)
  have d2: "\<forall>k. 1 \<le> k \<and> k < NAOT_VALS \<longrightarrow> real k - real (k - 1) > 1/100000"
    by (auto simp: of_nat_diff)
  have "compute_roatm_iaMax DNL_BAND7 (1/100000) (\<lambda>ib ia. real (min ia 2)) (\<lambda>_. 0) 6 = 3 - 1"
    using roatm_iaMax_first_flat
            [OF h, of "\<lambda>ib ia. real (min ia 2)" "1/100000" "\<lambda>_. 0",
             THEN conjunct2, THEN conjunct1, THEN spec, of 3]
          d1
    by (simp add: NAOT_VALS_def)
  moreover
  have "compute_roatm_iaMax DNL_BAND7 (1/100000) (\<lambda>ib ia. real ia) (\<lambda>_. 0) 6 = NAOT_VALS - 1"
    using roatm_iaMax_first_flat
            [OF h, of "\<lambda>ib ia. real ia" "1/100000" "\<lambda>_. 0",
             THEN conjunct2, THEN conjunct2, THEN conjunct1]
          d2
    by simp
  moreover
  have "compute_roatm_iaMax DNL_BAND7 (1/100000) (\<lambda>ib ia. real ia) (\<lambda>_. 5) 7 = 5"
    using roatm_iaMax_first_flat
            [OF h, of "\<lambda>ib ia. real ia" "1/100000" "\<lambda>_. 5",
             THEN conjunct2, THEN conjunct2, THEN conjunct2, THEN spec, of 7]
          g
    by simp
  ultimately show ?thesis
    by (simp add: NAOT_VALS_def)
qed

subsection \<open>The ratio guard\<close>

text \<open>
  Claim C8. The ratio guard is idempotent: applying it again to a cell it has already
  treated writes the same values, so the slope and intercept arrays do not change on a
  repeated visit; the arrays \<^verbatim>\<open>ratiob1, ratiob2, ratiob7, sndwi\<close> (and
  \<^verbatim>\<open>andwi\<close>) are never changed by it.
\<close>

theorem ratio_guard_idempotent:
  "ratio_guard p (ratio_guard p g) = ratio_guard p g
   \<and> ratiob1 (ratio_guard p g) = ratiob1 g
   \<and> ratiob2 (ratio_guard p g) = ratiob2 g
   \<and> ratiob7 (ratio_guard p g) = ratiob7 g
   \<and> sndwi (ratio_guard p g) = sndwi g
   \<and> andwi (ratio_guard p g) = andwi g"
  by (simp add: ratio_guard_def Let_def)

theorem ratio_guard_idempotent_witness:
  "slpratiob1 (ratio_guard 0 s6_grid) 0 = 0 \<and> slpratiob2 (ratio_guard 0 s6_grid) 0 = 0
   \<and> slpratiob7 (ratio_guard 0 s6_grid) 0 = 0
   \<and> intratiob1 (ratio_guard 0 s6_grid) 0 = 550 \<and> intratiob2 (ratio_guard 0 s6_grid) 0 = 600
   \<and> intratiob7 (ratio_guard 0 s6_grid) 0 = 2000
   \<and> ratio_guard 0 (ratio_guard 0 s6_grid) = ratio_guard 0 s6_grid"
  using ratio_guard_idempotent [of 0 s6_grid]
  by (simp add: ratio_guard_def s6_grid_def Let_def)

subsection \<open>The grid cell of the north-east corner\<close>

text \<open>
  Claim C9. A pixel at latitude 89.975 and longitude 179.975 degrees falls in line 0 and
  in the last sample, \<open>CMG_NBLON - 1\<close> with \<open>CMG_NBLON = 7200\<close>; its longitude
  neighbour wraps to sample 0 and its latitude neighbour is line 1.
\<close>

theorem cmg_index_corner:
  "lcmg (cmg_index 89.975 179.975) = 0
   \<and> scmg (cmg_index 89.975 179.975) = CMG_NBLON - 1
   \<and> CMG_NBLON = 7200
   \<and> scmg1 (cmg_index 89.975 179.975) = 0
   \<and> lcmg1 (cmg_index 89.975 179.975) = 1"
  by (simp add: cmg_index_def c_int_cast_def CMG_NBLON_def CMG_NBLAT_def Let_def)

subsection \<open>The three-point search of the Angstrom exponent\<close>

lemmas eps_defs = LOW_EPS_def MOD_EPS_def HIGH_EPS_def

lemma stub_sel [simp]: "subaeroret_new (stub_ext r1 r2 r3) = stub_sub r1 r2 r3"
  by (simp add: stub_ext_def)

lemma eps_search_unfold:
  "eps_search x erelc troatm calls =
     eps_choose x erelc troatm
       (subaeroret_new x False erelc troatm 0 LOW_EPS)
       (subaeroret_new x False erelc troatm
          (s_iaots (subaeroret_new x False erelc troatm
             (s_iaots (subaeroret_new x False erelc troatm 0 LOW_EPS)) MOD_EPS)) HIGH_EPS)
       (calls @
          [\<lparr>c_water = False, c_erelc = erelc, c_troatm = troatm, c_iaots = 0, c_eps = LOW_EPS\<rparr>,
           \<lparr>c_water = False, c_erelc = erelc, c_troatm = troatm,
             c_iaots = s_iaots (subaeroret_new x False erelc troatm 0 LOW_EPS),
             c_eps = MOD_EPS\<rparr>,
           \<lparr>c_water = False, c_erelc = erelc, c_troatm = troatm,
             c_iaots = s_iaots (subaeroret_new x False erelc troatm
                (s_iaots (subaeroret_new x False erelc troatm 0 LOW_EPS)) MOD_EPS),
             c_eps = HIGH_EPS\<rparr>])
       (parabolic_epsmin
          (s_residual (subaeroret_new x False erelc troatm 0 LOW_EPS))
          (s_residual (subaeroret_new x False erelc troatm
             (s_iaots (subaeroret_new x False erelc troatm 0 LOW_EPS)) MOD_EPS))
          (s_residual (subaeroret_new x False erelc troatm
             (s_iaots (subaeroret_new x False erelc troatm
                (s_iaots (subaeroret_new x False erelc troatm 0 LOW_EPS)) MOD_EPS)) HIGH_EPS)))"
  by (simp add: eps_search_def Let_def)

lemma eps_choose_inside:
  "LOW_EPS \<le> e \<Longrightarrow> e \<le> HIGH_EPS \<Longrightarrow>
   eps_choose x erelc troatm o1 o3 cs (Fin e) =
     \<lparr>r_eps = Fin e,
      r_raot = s_raot (subaeroret_new x False erelc troatm (s_iaots o3) e),
      r_residual = s_residual (subaeroret_new x False erelc troatm (s_iaots o3) e),
      r_calls = cs @ [\<lparr>c_water = False, c_erelc = erelc, c_troatm = troatm,
                        c_iaots = s_iaots o3, c_eps = e\<rparr>]\<rparr>"
  by (simp add: eps_choose_def Let_def)

lemma eps_choose_outside:
  "cfloat_lt v LOW_EPS \<Longrightarrow>
   eps_choose x erelc troatm o1 o3 cs v =
     \<lparr>r_eps = Fin LOW_EPS, r_raot = s_raot o1, r_residual = s_residual o1, r_calls = cs\<rparr>"
  "cfloat_gt v HIGH_EPS \<Longrightarrow>
   eps_choose x erelc troatm o1 o3 cs v =
     \<lparr>r_eps = Fin HIGH_EPS, r_raot = s_raot o3, r_residual = s_residual o3, r_calls = cs\<rparr>"
  "\<not> (cfloat_ge v LOW_EPS \<and> cfloat_le v HIGH_EPS) \<Longrightarrow>
   r_calls (eps_choose x erelc troatm o1 o3 cs v) = cs"
  by (cases v; simp add: eps_choose_def Let_def LOW_EPS_def HIGH_EPS_def)+

text \<open>
  When \<^verbatim>\<open>epsmin\<close> is NaN no test of lines 1071-1088 holds: \<^verbatim>\<open>eps\<close> is NaN, and
  \<^verbatim>\<open>raot\<close> and \<^verbatim>\<open>residual\<close> are those of the third retrieval.
\<close>

lemma eps_choose_nan:
  "eps_choose x erelc troatm o1 o3 cs NaN =
     \<lparr>r_eps = NaN, r_raot = s_raot o3, r_residual = s_residual o3, r_calls = cs\<rparr>"
  by (simp add: eps_choose_def Let_def)

text \<open>
  Claim C2, as stated, fails at the ends of the interval: with residuals 1/2, 3/8 and 0
  the vertex is exactly \<open>LOW_EPS\<close>, and the search calls the solver a fourth time
  (at \<open>LOW_EPS\<close>, with the search index left by the third call) instead of adopting
  the outcome of the first call, whose optical thickness was 0. The residuals and
  every intermediate value of lines 1066-1068 are binary32 numbers in this run, so that
  no operation rounds.
\<close>

theorem eps_search_boundary_counterexample:
  "parabolic_epsmin (1/2) (3/8) 0 = Fin LOW_EPS
   \<and> s_raot (subaeroret_new (stub_ext (1/2) (3/8) 0) False (\<lambda>_. 1) (\<lambda>_. 0) 0 LOW_EPS) = 0
   \<and> length (r_calls (eps_search (stub_ext (1/2) (3/8) 0) (\<lambda>_. 1) (\<lambda>_. 0) [])) = 4
   \<and> c_eps (r_calls (eps_search (stub_ext (1/2) (3/8) 0) (\<lambda>_. 1) (\<lambda>_. 0) []) ! 3) = LOW_EPS
   \<and> r_raot (eps_search (stub_ext (1/2) (3/8) 0) (\<lambda>_. 1) (\<lambda>_. 0) []) = 3/10"
  by (simp add: eps_search_def eps_choose_def parabolic_epsmin_def c_divide_def stub_sub_def
        Let_def LOW_EPS_def MOD_EPS_def HIGH_EPS_def)

text \<open>
  Claim C2, amended. The search makes the three trial retrievals and then chooses from
  the value that the variable \<^verbatim>\<open>epsmin\<close> holds, whatever that value is. The solver is
  called a fourth time, at \<open>epsmin\<close> and with the search index left by the third call,
  exactly when \<open>LOW_EPS \<le> epsmin \<le> HIGH_EPS\<close>, and the outcome of that call is
  adopted. When \<open>epsmin < LOW_EPS\<close> (minus infinity included) the outcome of the first
  call is adopted (\<open>eps = LOW_EPS\<close>, \<open>residual1\<close>, \<open>sraot1\<close>) without another
  call; when \<open>epsmin > HIGH_EPS\<close> (plus infinity included) the outcome of the third call
  is adopted (\<open>eps = HIGH_EPS\<close>, \<open>residual3\<close>, \<open>sraot3\<close>) without another call.
\<close>

theorem eps_search_branches:
  fixes x :: externals and erelc troatm :: "real arr" and calls :: "sub_call list"
  defines "o1 \<equiv> subaeroret_new x False erelc troatm 0 LOW_EPS"
  defines "o2 \<equiv> subaeroret_new x False erelc troatm (s_iaots o1) MOD_EPS"
  defines "o3 \<equiv> subaeroret_new x False erelc troatm (s_iaots o2) HIGH_EPS"
  defines "first3 \<equiv>
     [\<lparr>c_water = False, c_erelc = erelc, c_troatm = troatm, c_iaots = 0, c_eps = LOW_EPS\<rparr>,
      \<lparr>c_water = False, c_erelc = erelc, c_troatm = troatm, c_iaots = s_iaots o1, c_eps = MOD_EPS\<rparr>,
      \<lparr>c_water = False, c_erelc = erelc, c_troatm = troatm, c_iaots = s_iaots o2, c_eps = HIGH_EPS\<rparr>]"
  shows "eps_search x erelc troatm calls
           = eps_choose x erelc troatm o1 o3 (calls @ first3)
               (parabolic_epsmin (s_residual o1) (s_residual o2) (s_residual o3))
       \<and> (\<forall>e cs. LOW_EPS \<le> e \<and> e \<le> HIGH_EPS \<longrightarrow>
             eps_choose x erelc troatm o1 o3 cs (Fin e) =
               \<lparr>r_eps = Fin e,
                r_raot = s_raot (subaeroret_new x False erelc troatm (s_iaots o3) e),
                r_residual = s_residual (subaeroret_new x False erelc troatm (s_iaots o3) e),
                r_calls = cs @ [\<lparr>c_water = False, c_erelc = erelc, c_troatm = troatm,
                                  c_iaots = s_iaots o3, c_eps = e\<rparr>]\<rparr>)
       \<and> (\<forall>epsmin cs. \<not> (\<exists>e. epsmin = Fin e \<and> LOW_EPS \<le> e \<and> e \<le> HIGH_EPS) \<longrightarrow>
             r_calls (eps_choose x erelc troatm o1 o3 cs epsmin) = cs)
       \<and> (\<forall>epsmin cs. cfloat_lt epsmin LOW_EPS \<longrightarrow>
             eps_choose x erelc troatm o1 o3 cs epsmin =
               \<lparr>r_eps = Fin LOW_EPS, r_raot = s_raot o1, r_residual = s_residual o1,
                r_calls = cs\<rparr>)
       \<and> (\<forall>epsmin cs. cfloat_gt epsmin HIGH_EPS \<longrightarrow>
             eps_choose x erelc troatm o1 o3 cs epsmin =
               \<lparr>r_eps = Fin HIGH_EPS, r_raot = s_raot o3, r_residual = s_residual o3,
                r_calls = cs\<rparr>)"
proof -
  have u: "eps_search x erelc troatm calls
           = eps_choose x erelc troatm o1 o3 (calls @ first3)
               (parabolic_epsmin (s_residual o1) (s_residual o2) (s_residual o3))"
    unfolding o1_def o2_def o3_def first3_def by (rule eps_search_unfold)
  have n: "cfloat_ge epsmin LOW_EPS \<and> cfloat_le epsmin HIGH_EPS
           \<longleftrightarrow> (\<exists>e. epsmin = Fin e \<and> LOW_EPS \<le> e \<and> e \<le> HIGH_EPS)" for epsmin
    by (cases epsmin) simp_all
  show ?thesis
    using u eps_choose_inside [of _ x erelc troatm o1 o3]
      eps_choose_outside [of _ x erelc troatm o1 o3]
    unfolding n [symmetric] by blast
qed

theorem eps_search_branches_witness:
  "parabolic_epsmin (1/4) (1/16) 1 = Fin (3/2)
   \<and> r_eps (eps_search (stub_ext (1/4) (1/16) 1) (\<lambda>_. 1) (\<lambda>_. 0) []) = Fin (3/2)
   \<and> length (r_calls (eps_search (stub_ext (1/4) (1/16) 1) (\<lambda>_. 1) (\<lambda>_. 0) [])) = 4
   \<and> parabolic_epsmin (1/4) (25/16) 4 = Fin (1/2)
   \<and> r_eps (eps_search (stub_ext (1/4) (25/16) 4) (\<lambda>_. 1) (\<lambda>_. 0) []) = Fin LOW_EPS
   \<and> length (r_calls (eps_search (stub_ext (1/4) (25/16) 4) (\<lambda>_. 1) (\<lambda>_. 0) [])) = 3
   \<and> parabolic_epsmin 3 2 1 = NInf
   \<and> r_eps (eps_search (stub_ext 3 2 1) (\<lambda>_. 1) (\<lambda>_. 0) []) = Fin LOW_EPS
   \<and> r_residual (eps_search (stub_ext 3 2 1) (\<lambda>_. 1) (\<lambda>_. 0) []) = 3
   \<and> length (r_calls (eps_search (stub_ext 3 2 1) (\<lambda>_. 1) (\<lambda>_. 0) [])) = 3
   \<and> parabolic_epsmin 1 2 3 = PInf
   \<and> r_eps (eps_search (stub_ext 1 2 3) (\<lambda>_. 1) (\<lambda>_. 0) []) = Fin HIGH_EPS
   \<and> r_residual (eps_search (stub_ext 1 2 3) (\<lambda>_. 1) (\<lambda>_. 0) []) = 3
   \<and> length (r_calls (eps_search (stub_ext 1 2 3) (\<lambda>_. 1) (\<lambda>_. 0) [])) = 3"
proof -
  have v: "parabolic_epsmin (1/4) (1/16) 1 = Fin (3/2)"
    "parabolic_epsmin (1/4) (25/16) 4 = Fin (1/2)"
    "parabolic_epsmin 3 2 1 = NInf" "parabolic_epsmin 1 2 3 = PInf"
    by (simp_all add: parabolic_epsmin_def c_divide_def Let_def eps_defs)
  note t = eps_search_branches [where erelc = "\<lambda>_. 1" and troatm = "\<lambda>_. 0" and calls = "[]"]
  have a: "r_eps (eps_search (stub_ext (1/4) (1/16) 1) (\<lambda>_. 1) (\<lambda>_. 0) []) = Fin (3/2)
         \<and> length (r_calls (eps_search (stub_ext (1/4) (1/16) 1) (\<lambda>_. 1) (\<lambda>_. 0) [])) = 4"
    using t [of "stub_ext (1/4) (1/16) 1", THEN conjunct2, THEN conjunct1, THEN spec, of "3/2"]
          t [of "stub_ext (1/4) (1/16) 1", THEN conjunct1] v(1)
    by (simp add: stub_sub_def eps_defs)
  have b: "r_eps (eps_search (stub_ext (1/4) (25/16) 4) (\<lambda>_. 1) (\<lambda>_. 0) []) = Fin LOW_EPS
         \<and> length (r_calls (eps_search (stub_ext (1/4) (25/16) 4) (\<lambda>_. 1) (\<lambda>_. 0) [])) = 3"
    using t [of "stub_ext (1/4) (25/16) 4", THEN conjunct2, THEN conjunct2, THEN conjunct2,
             THEN conjunct1, THEN spec, of "Fin (1/2)"]
          t [of "stub_ext (1/4) (25/16) 4", THEN conjunct1] v(2)
    by (simp add: stub_sub_def eps_defs)
  have c: "r_eps (eps_search (stub_ext 3 2 1) (\<lambda>_. 1) (\<lambda>_. 0) []) = Fin LOW_EPS
         \<and> r_residual (eps_search (stub_ext 3 2 1) (\<lambda>_. 1) (\<lambda>_. 0) []) = 3
         \<and> length (r_calls (eps_search (stub_ext 3 2 1) (\<lambda>_. 1) (\<lambda>_. 0) [])) = 3"
    using t [of "stub_ext 3 2 1", THEN conjunct2, THEN conjunct2, THEN conjunct2,
             THEN conjunct1, THEN spec, of NInf]
          t [of "stub_ext 3 2 1", THEN conjunct1] v(3)
    by (simp add: stub_sub_def eps_defs)
  have d: "r_eps (eps_search (stub_ext 1 2 3) (\<lambda>_. 1) (\<lambda>_. 0) []) = Fin HIGH_EPS
         \<and> r_residual (eps_search (stub_ext 1 2 3) (\<lambda>_. 1) (\<lambda>_. 0) []) = 3
         \<and> length (r_calls (eps_search (stub_ext 1 2 3) (\<lambda>_. 1) (\<lambda>_. 0) [])) = 3"
    using t [of "stub_ext 1 2 3", THEN conjunct2, THEN conjunct2, THEN conjunct2,
             THEN conjunct2, THEN spec, of PInf]
          t [of "stub_ext 1 2 3", THEN conjunct1] v(4)
    by (simp add: stub_sub_def eps_defs)
  show ?thesis
    using v a b c d by simp
qed
text \<open>
  Claim C4, as stated, gives the vertex as approximately 1.85: for the residuals 0.04,
  0.01 and 0.03 the vertex is 1.825, which is 0.025 away from 1.85.
\<close>

theorem epsmin_S2_counterexample:
  "\<exists>e. parabolic_epsmin (4/100) (1/100) (3/100) = Fin e \<and> \<bar>e - 185/100\<bar> = 25/1000"
proof -
  have "parabolic_epsmin (4/100) (1/100) (3/100) = Fin (1825/1000)"
    by (simp add: parabolic_epsmin_def c_divide_def Let_def LOW_EPS_def MOD_EPS_def HIGH_EPS_def)
  moreover have "\<bar>1825/1000 - 185/100\<bar> = (25/1000 :: real)"
    by simp
  ultimately show ?thesis
    by blast
qed

text \<open>
  Claim C4, amended. For residuals 0.04, 0.01 and 0.03 at the exponents 1.0, 1.75 and
  2.5 the vertex is 1.825; it lies in \<open>[LOW_EPS, HIGH_EPS]\<close>, so a search whose three
  trial retrievals return these residuals calls the solver again at 1.825 and adopts
  the outcome of that call.
\<close>

theorem epsmin_S2:
  fixes x :: externals and erelc troatm :: "real arr" and calls :: "sub_call list"
  defines "o1 \<equiv> subaeroret_new x False erelc troatm 0 LOW_EPS"
  defines "o2 \<equiv> subaeroret_new x False erelc troatm (s_iaots o1) MOD_EPS"
  defines "o3 \<equiv> subaeroret_new x False erelc troatm (s_iaots o2) HIGH_EPS"
  assumes r1: "s_residual o1 = 4/100" and r2: "s_residual o2 = 1/100"
    and r3: "s_residual o3 = 3/100"
  shows "parabolic_epsmin (4/100) (1/100) (3/100) = Fin (1825/1000)
       \<and> LOW_EPS \<le> 1825/1000 \<and> 1825/1000 \<le> HIGH_EPS
       \<and> eps_search x erelc troatm calls =
           \<lparr>r_eps = Fin (1825/1000),
            r_raot = s_raot (subaeroret_new x False erelc troatm (s_iaots o3) (1825/1000)),
            r_residual
              = s_residual (subaeroret_new x False erelc troatm (s_iaots o3) (1825/1000)),
            r_calls = calls @
                 [\<lparr>c_water = False, c_erelc = erelc, c_troatm = troatm, c_iaots = 0,
                   c_eps = LOW_EPS\<rparr>,
                  \<lparr>c_water = False, c_erelc = erelc, c_troatm = troatm, c_iaots = s_iaots o1,
                   c_eps = MOD_EPS\<rparr>,
                  \<lparr>c_water = False, c_erelc = erelc, c_troatm = troatm, c_iaots = s_iaots o2,
                   c_eps = HIGH_EPS\<rparr>,
                  \<lparr>c_water = False, c_erelc = erelc, c_troatm = troatm, c_iaots = s_iaots o3,
                   c_eps = 1825/1000\<rparr>]\<rparr>"
proof -
  have e: "parabolic_epsmin (4/100) (1/100) (3/100) = Fin (1825/1000)"
    by (simp add: parabolic_epsmin_def c_divide_def Let_def LOW_EPS_def MOD_EPS_def HIGH_EPS_def)
  have v: "parabolic_epsmin (s_residual o1) (s_residual o2) (s_residual o3) = Fin (1825/1000)"
    unfolding r1 r2 r3 by (rule e)
  have i: "LOW_EPS \<le> 1825/1000" "1825/1000 \<le> HIGH_EPS"
    by (simp_all add: LOW_EPS_def HIGH_EPS_def)
  have u: "eps_search x erelc troatm calls
          = eps_choose x erelc troatm o1 o3
              (calls @
                 [\<lparr>c_water = False, c_erelc = erelc, c_troatm = troatm, c_iaots = 0,
                   c_eps = LOW_EPS\<rparr>,
                  \<lparr>c_water = False, c_erelc = erelc, c_troatm = troatm, c_iaots = s_iaots o1,
                   c_eps = MOD_EPS\<rparr>,
                  \<lparr>c_water = False, c_erelc = erelc, c_troatm = troatm, c_iaots = s_iaots o2,
                   c_eps = HIGH_EPS\<rparr>])
              (Fin (1825/1000))"
    unfolding v [symmetric] o1_def o2_def o3_def by (rule eps_search_unfold)
  have s: "eps_search x erelc troatm calls =
           \<lparr>r_eps = Fin (1825/1000),
            r_raot = s_raot (subaeroret_new x False erelc troatm (s_iaots o3) (1825/1000)),
            r_residual
              = s_residual (subaeroret_new x False erelc troatm (s_iaots o3) (1825/1000)),
            r_calls = calls @
                 [\<lparr>c_water = False, c_erelc = erelc, c_troatm = troatm, c_iaots = 0,
                   c_eps = LOW_EPS\<rparr>,
                  \<lparr>c_water = False, c_erelc = erelc, c_troatm = troatm, c_iaots = s_iaots o1,
                   c_eps = MOD_EPS\<rparr>,
                  \<lparr>c_water = False, c_erelc = erelc, c_troatm = troatm, c_iaots = s_iaots o2,
                   c_eps = HIGH_EPS\<rparr>,
                  \<lparr>c_water = False, c_erelc = erelc, c_troatm = troatm, c_iaots = s_iaots o3,
                   c_eps = 1825/1000\<rparr>]\<rparr>"
    unfolding u eps_choose_inside [OF i] by (simp only: append.simps append_assoc)
  show ?thesis
    using e i s by (intro conjI)
qed

theorem epsmin_S2_witness:
  "r_eps (eps_search (stub_ext (4/100) (1/100) (3/100)) (\<lambda>_. 1) (\<lambda>_. 0) []) = Fin (1825/1000)
   \<and> length (r_calls (eps_search (stub_ext (4/100) (1/100) (3/100)) (\<lambda>_. 1) (\<lambda>_. 0) [])) = 4
   \<and> c_eps (r_calls (eps_search (stub_ext (4/100) (1/100) (3/100)) (\<lambda>_. 1) (\<lambda>_. 0) []) ! 3)
       = 1825/1000"
  using epsmin_S2 [of "stub_ext (4/100) (1/100) (3/100)" "\<lambda>_. 1" "\<lambda>_. 0" "[]"]
  by (simp add: stub_sub_def LOW_EPS_def MOD_EPS_def HIGH_EPS_def)

subsection \<open>Loops and what a step leaves unchanged\<close>

lemmas band_defs = DNL_BAND1_def DNL_BAND2_def DNL_BAND4_def DNL_BAND5_def DNL_BAND7_def

lemma foldE_invariant:
  assumes "foldE f as s = Inr s'" and "P s"
    and "\<And>a t t'. a \<in> set as \<Longrightarrow> P t \<Longrightarrow> f a t = Inr t' \<Longrightarrow> P t'"
  shows "P s'"
  using assms
proof (induction as arbitrary: s)
  case Nil
  then show ?case by simp
next
  case (Cons a as)
  from Cons.prems(1) obtain t where t: "f a s = Inr t" and r: "foldE f as t = Inr s'"
    by (auto split: sum.splits)
  have "P t"
    using Cons.prems(2,3) t by auto
  then show ?case
    using Cons.IH [OF r] Cons.prems(3) by auto
qed

lemma eps_search_calls:
  "\<exists>cs. r_calls (eps_search x erelc troatm calls) = calls @ cs
        \<and> list_all (\<lambda>c. \<not> c_water c) cs"
  unfolding eps_search_def eps_choose_def Let_def
  by (auto split: cfloat.splits)

lemma land_retrieve_fields:
  assumes "land_retrieve x sc center_pix curr_pix lat lon st = Inr st1"
  shows "aerob1 st1 = aerob1 st" "aerob2 st1 = aerob2 st" "aerob4 st1 = aerob4 st"
    "aerob5 st1 = aerob5 st" "aerob7 st1 = aerob7 st" "sband st1 = sband st"
    "coeffs st1 = coeffs st" "atm_calls st1 = atm_calls st"
    "q \<noteq> center_pix \<Longrightarrow> ipflag st1 q = ipflag st q"
    "ipflag st1 center_pix = ipflag st center_pix OR push_bit IPFLAG_CLEAR 1
       \<or> ipflag st1 center_pix = ipflag st center_pix OR push_bit IPFLAG_WATER 1"
    "\<exists>cs. sub_calls st1 = sub_calls st @ cs \<and> list_all (\<lambda>c. \<not> c_water c) cs"
  using assms eps_search_calls [of x _ _ "sub_calls st"]
  unfolding land_retrieve_def Let_def
  by (fastforce split: if_splits)+

lemma water_retrieval_fields:
  "aerob1 (water_retrieval x xm center_pix curr_pix troatm st) = aerob1 st"
  "aerob2 (water_retrieval x xm center_pix curr_pix troatm st) = aerob2 st"
  "sband (water_retrieval x xm center_pix curr_pix troatm st) = sband st"
  "coeffs (water_retrieval x xm center_pix curr_pix troatm st) = coeffs st"
  "atm_calls (water_retrieval x xm center_pix curr_pix troatm st) = atm_calls st"
  "q \<noteq> center_pix \<Longrightarrow> ipflag (water_retrieval x xm center_pix curr_pix troatm st) q = ipflag st q"
  "ipflag (water_retrieval x xm center_pix curr_pix troatm st) center_pix = 0
     \<or> ipflag (water_retrieval x xm center_pix curr_pix troatm st) center_pix
         = push_bit IPFLAG_CLEAR 1 OR push_bit IPFLAG_WATER 1"
  "sub_calls (water_retrieval x xm center_pix curr_pix troatm st)
     = sub_calls st @ [\<lparr>c_water = True, c_erelc = water_erelc,
                        c_troatm = water_troatm st curr_pix troatm, c_iaots = 0, c_eps = 1.5\<rparr>]"
  by (simp_all add: water_retrieval_def Let_def)

lemma retrieval_flags_or:
  "f \<in> retrieval_flags \<Longrightarrow> f OR push_bit IPFLAG_CLEAR 1 \<in> retrieval_flags"
  "f \<in> retrieval_flags \<Longrightarrow> f OR push_bit IPFLAG_WATER 1 \<in> retrieval_flags"
  by (auto simp: retrieval_flags_def IPFLAG_CLEAR_def IPFLAG_WATER_def)

lemma aerosol_retrieve_flags:
  assumes "aerosol_retrieve x sc center_pix curr_pix lat lon st = Inr st'"
    and "ipflag st p \<in> retrieval_flags"
  shows "ipflag st' p \<in> retrieval_flags"
proof -
  from assms(1) obtain st1 where l: "land_retrieve x sc center_pix curr_pix lat lon st = Inr st1"
    and s: "st' = (if lasrc_qa_is_water (ipflag st1 center_pix)
                   then water_retrieval x (xmus (geo sc)) center_pix curr_pix
                          (land_troatm st curr_pix) st1
                   else st1)"
    by (auto simp: aerosol_retrieve_def split: sum.splits)
  have 1: "ipflag st1 p \<in> retrieval_flags"
  proof (cases "p = center_pix")
    case True
    then show ?thesis
      using land_retrieve_fields(10) [OF l] assms(2) retrieval_flags_or by auto
  next
    case False
    then show ?thesis
      using land_retrieve_fields(9) [OF l] assms(2) by simp
  qed
  show ?thesis
  proof (cases "lasrc_qa_is_water (ipflag st1 center_pix)")
    case False
    then show ?thesis using s 1 by simp
  next
    case True
    show ?thesis
    proof (cases "p = center_pix")
      case True
      then show ?thesis
        using s \<open>lasrc_qa_is_water (ipflag st1 center_pix)\<close>
          water_retrieval_fields(7) [of x "xmus (geo sc)" center_pix curr_pix
             "land_troatm st curr_pix" st1]
        by (auto simp: retrieval_flags_def)
    next
      case False
      then show ?thesis
        using s 1 water_retrieval_fields(6) by simp
    qed
  qed
qed

lemma aerosol_window_flags:
  assumes "aerosol_window x sc cl cs st = Inr st'" and "ipflag st p \<in> retrieval_flags"
  shows "ipflag st' p \<in> retrieval_flags"
  using assms aerosol_retrieve_flags
  unfolding aerosol_window_def
  by (fastforce split: option.splits prod.splits)

lemma aerosol_window_pass_flags:
  assumes "aerosol_window_pass x sc st = Inr st'" and "ipflag st p \<in> retrieval_flags"
  shows "ipflag st' p \<in> retrieval_flags"
proof -
  let ?P = "\<lambda>t. ipflag t p \<in> retrieval_flags"
  have inner: "?P t'" if "foldE (aerosol_window x sc i) js t = Inr t'" "?P t" for i js t t'
    using that(1,2) by (rule foldE_invariant) (rule aerosol_window_flags)
  from assms(1) have "foldE (\<lambda>i. foldE (aerosol_window x sc i)
                     (window_centers (LAERO_WINDOW sc) (nsamps sc) (LHALF_AERO_WINDOW sc)))
             (window_centers (LAERO_WINDOW sc) (nlines sc) (LHALF_AERO_WINDOW sc)) st = Inr st'"
    by (simp add: aerosol_window_pass_def split: if_splits)
  then show ?thesis
    using assms(2) by (rule foldE_invariant) (rule inner)
qed

lemma climatology_pixel_ipflag:
  assumes "climatology_pixel x sc ib i t = Inr t'"
  shows "\<not> level1_qa_is_fill x (qaband sc p) \<Longrightarrow> ipflag t' p = ipflag t p"
    and "p \<noteq> i \<Longrightarrow> ipflag t' p = ipflag t p"
    and "ib \<noteq> DNL_BAND1 \<Longrightarrow> ipflag t' p = ipflag t p"
    and "level1_qa_is_fill x (qaband sc i) \<Longrightarrow> ib = DNL_BAND1
           \<Longrightarrow> ipflag t' i = push_bit IPFLAG_FILL 1"
    and "level1_qa_is_fill x (qaband sc p) \<Longrightarrow> sband t' b p = sband t b p"
    and "coeffs t' = coeffs t" and "atm_calls t' = atm_calls t"
  using assms unfolding climatology_pixel_def Let_def
  by (auto split: if_splits)

lemma climatology_band_unfold:
  assumes "climatology_band x sc ib st = Inr st'"
  obtains out where "atmcorlamb2 x (geo sc) (aot550nm ! 1) ib 0 2.5 = Some out"
    and "foldE (climatology_pixel x sc ib) [0..<nlines sc * nsamps sc]
           (st\<lparr>atm_calls := atm_calls st @ [(geo sc, aot550nm ! 1, ib, 2.5)],
               coeffs := (coeffs st)\<lparr>btgo := (btgo (coeffs st))(ib := out_tgo out),
                                       broatm := (broatm (coeffs st))(ib := out_roatm out),
                                       bttatmg := (bttatmg (coeffs st))(ib := out_ttatmg out),
                                       bsatm := (bsatm (coeffs st))(ib := out_satm out)\<rparr>\<rparr>)
         = Inr st'"
  using assms unfolding climatology_band_def Let_def
  by (auto split: option.splits)

lemma climatology_band_ipflag_nonfill:
  assumes "climatology_band x sc ib st = Inr st'" and "\<not> level1_qa_is_fill x (qaband sc p)"
  shows "ipflag st' p = ipflag st p"
proof -
  from assms(1) obtain s2 where f: "foldE (climatology_pixel x sc ib) [0..<nlines sc * nsamps sc] s2 = Inr st'"
    and i: "ipflag s2 = ipflag st"
    by (rule climatology_band_unfold) simp
  have "ipflag st' p = ipflag st p"
    using f
  proof (rule foldE_invariant)
    show "ipflag s2 p = ipflag st p" using i by simp
  next
    fix a t t'
    assume "ipflag t p = ipflag st p" "climatology_pixel x sc ib a t = Inr t'"
    then show "ipflag t' p = ipflag st p"
      using climatology_pixel_ipflag(1) [OF _ assms(2)] by simp
  qed
  then show ?thesis .
qed

lemma climatology_stage_ipflag_nonfill:
  assumes "climatology_stage x sc st = Inr st'" and "\<not> level1_qa_is_fill x (qaband sc p)"
  shows "ipflag st' p = ipflag st p"
  using assms(1) unfolding climatology_stage_def
proof (rule foldE_invariant)
  show "ipflag st p = ipflag st p" by simp
next
  fix a t t'
  assume "ipflag t p = ipflag st p" "climatology_band x sc a t = Inr t'"
  then show "ipflag t' p = ipflag st p"
    using climatology_band_ipflag_nonfill [OF _ assms(2)] by simp
qed

lemma aerosol_retrieve_other:
  assumes "aerosol_retrieve x sc center_pix curr_pix lat lon st = Inr st'"
  shows "q \<noteq> center_pix \<Longrightarrow> ipflag st' q = ipflag st q"
    and "coeffs st' = coeffs st" and "sband st' = sband st" and "atm_calls st' = atm_calls st"
proof -
  from assms obtain st1 where l: "land_retrieve x sc center_pix curr_pix lat lon st = Inr st1"
    and s: "st' = (if lasrc_qa_is_water (ipflag st1 center_pix)
                   then water_retrieval x (xmus (geo sc)) center_pix curr_pix
                          (land_troatm st curr_pix) st1
                   else st1)"
    by (auto simp: aerosol_retrieve_def split: sum.splits)
  show "ipflag st' q = ipflag st q" if "q \<noteq> center_pix"
    using that s land_retrieve_fields(9) [OF l] water_retrieval_fields(6) by simp
  show "coeffs st' = coeffs st"
    using s land_retrieve_fields(7) [OF l] water_retrieval_fields(4) by simp
  show "sband st' = sband st"
    using s land_retrieve_fields(6) [OF l] water_retrieval_fields(3) by simp
  show "atm_calls st' = atm_calls st"
    using s land_retrieve_fields(8) [OF l] water_retrieval_fields(5) by simp
qed

lemma land_retrieve_aero_other:
  assumes "land_retrieve x sc center_pix curr_pix lat lon st = Inr st1" and "q \<noteq> center_pix"
  shows "taero st1 q = taero st q" and "teps st1 q = teps st q"
  using assms unfolding land_retrieve_def Let_def
  by (auto split: if_splits sum.splits)

lemma aerosol_retrieve_aero_other:
  assumes "aerosol_retrieve x sc center_pix curr_pix lat lon st = Inr st'" and "q \<noteq> center_pix"
  shows "taero st' q = taero st q" and "teps st' q = teps st q"
proof -
  from assms obtain st1 where l: "land_retrieve x sc center_pix curr_pix lat lon st = Inr st1"
    and s: "st' = (if lasrc_qa_is_water (ipflag st1 center_pix)
                   then water_retrieval x (xmus (geo sc)) center_pix curr_pix
                          (land_troatm st curr_pix) st1
                   else st1)"
    by (auto simp: aerosol_retrieve_def split: sum.splits)
  show "taero st' q = taero st q" "teps st' q = teps st q"
    using s land_retrieve_aero_other [OF l assms(2)] assms(2)
    by (simp_all add: water_retrieval_def Let_def)
qed

lemma aerosol_window_skip:
  assumes "aerosol_window x sc cl cs st = Inr st'"
    and "cl * nsamps sc + cs = p \<longrightarrow> aero_pixel x sc cl cs = None"
  shows "ipflag st' p = ipflag st p" and "taero st' p = taero st p" and "teps st' p = teps st p"
proof -
  show "ipflag st' p = ipflag st p"
  proof (cases "aero_pixel x sc cl cs")
    case None
    then show ?thesis using assms(1) by (simp add: aerosol_window_def)
  next
    case (Some ij)
    then have n: "p \<noteq> cl * nsamps sc + cs" using assms(2) by auto
    show ?thesis
      using assms(1) Some aerosol_retrieve_other(1) [OF _ n]
      by (auto simp: aerosol_window_def split: prod.splits option.splits)
  qed
  show "taero st' p = taero st p"
  proof (cases "aero_pixel x sc cl cs")
    case None
    then show ?thesis using assms(1) by (simp add: aerosol_window_def)
  next
    case (Some ij)
    then have n: "p \<noteq> cl * nsamps sc + cs" using assms(2) by auto
    show ?thesis
      using assms(1) Some aerosol_retrieve_aero_other(1) [OF _ n]
      by (auto simp: aerosol_window_def split: prod.splits option.splits)
  qed
  show "teps st' p = teps st p"
  proof (cases "aero_pixel x sc cl cs")
    case None
    then show ?thesis using assms(1) by (simp add: aerosol_window_def)
  next
    case (Some ij)
    then have n: "p \<noteq> cl * nsamps sc + cs" using assms(2) by auto
    show ?thesis
      using assms(1) Some aerosol_retrieve_aero_other(2) [OF _ n]
      by (auto simp: aerosol_window_def split: prod.splits option.splits)
  qed
qed

lemma aerosol_window_pass_skip:
  assumes w: "aerosol_window_pass x sc st = Inr st'"
    and n: "\<forall>i \<in> set (window_centers (LAERO_WINDOW sc) (nlines sc) (LHALF_AERO_WINDOW sc)).
            \<forall>j \<in> set (window_centers (LAERO_WINDOW sc) (nsamps sc) (LHALF_AERO_WINDOW sc)).
              i * nsamps sc + j = p \<longrightarrow> aero_pixel x sc i j = None"
  shows "ipflag st' p = ipflag st p \<and> taero st' p = taero st p \<and> teps st' p = teps st p"
proof -
  let ?P = "\<lambda>t. ipflag t p = ipflag st p \<and> taero t p = taero st p \<and> teps t p = teps st p"
  let ?js = "window_centers (LAERO_WINDOW sc) (nsamps sc) (LHALF_AERO_WINDOW sc)"
  let ?is = "window_centers (LAERO_WINDOW sc) (nlines sc) (LHALF_AERO_WINDOW sc)"
  have inner: "?P t'" if "i \<in> set ?is" "?P t" "foldE (aerosol_window x sc i) ?js t = Inr t'" for i t t'
    using that(3,2)
  proof (rule foldE_invariant [where P = ?P])
    fix j u u'
    assume j: "j \<in> set ?js" and u: "?P u" and a: "aerosol_window x sc i j u = Inr u'"
    have "i * nsamps sc + j = p \<longrightarrow> aero_pixel x sc i j = None"
      using n that(1) j by blast
    from aerosol_window_skip [OF a this] u show "?P u'"
      by simp
  qed
  from w have "foldE (\<lambda>i. foldE (aerosol_window x sc i) ?js) ?is st = Inr st'"
    by (simp add: aerosol_window_pass_def split: if_splits)
  then show ?thesis
  proof (rule foldE_invariant [where P = ?P])
    show "?P st" by simp
  next
    fix i t t'
    assume "i \<in> set ?is" "?P t" "foldE (aerosol_window x sc i) ?js t = Inr t'"
    then show "?P t'" by (rule inner)
  qed
qed

lemma aerosol_window_fill_centre:
  assumes a: "aerosol_window x sc cl cs st = Inr st'"
    and f: "ipflag st (cl * nsamps sc + cs) = push_bit IPFLAG_FILL 1"
  shows "ipflag st' (cl * nsamps sc + cs) \<in>
           {push_bit IPFLAG_FILL 1, push_bit IPFLAG_FILL 1 OR push_bit IPFLAG_CLEAR 1, 0,
            push_bit IPFLAG_CLEAR 1 OR push_bit IPFLAG_WATER 1}"
proof (cases "aero_pixel x sc cl cs")
  case None
  then show ?thesis using a f by (simp add: aerosol_window_def)
next
  case (Some ij)
  let ?cp = "cl * nsamps sc + cs"
  from a Some obtain cu lat lon where r: "aerosol_retrieve x sc ?cp cu lat lon st = Inr st'"
    by (auto simp: aerosol_window_def split: prod.splits option.splits)
  then obtain st1 where l: "land_retrieve x sc ?cp cu lat lon st = Inr st1"
    and s: "st' = (if lasrc_qa_is_water (ipflag st1 ?cp)
                   then water_retrieval x (xmus (geo sc)) ?cp cu (land_troatm st cu) st1
                   else st1)"
    by (auto simp: aerosol_retrieve_def split: sum.splits)
  from land_retrieve_fields(10) [OF l] f
  consider (clear) "ipflag st1 ?cp = push_bit IPFLAG_FILL 1 OR push_bit IPFLAG_CLEAR 1"
    | (water) "ipflag st1 ?cp = push_bit IPFLAG_FILL 1 OR push_bit IPFLAG_WATER 1"
    by auto
  then show ?thesis
  proof cases
    case clear
    then have "\<not> lasrc_qa_is_water (ipflag st1 ?cp)"
      by (simp add: lasrc_qa_is_water_def IPFLAG_FILL_def IPFLAG_CLEAR_def IPFLAG_WATER_def)
    then show ?thesis using s clear by simp
  next
    case water
    then have "lasrc_qa_is_water (ipflag st1 ?cp)"
      by (simp add: lasrc_qa_is_water_def IPFLAG_FILL_def IPFLAG_CLEAR_def IPFLAG_WATER_def)
    then show ?thesis
      using s water_retrieval_fields(7) [of x "xmus (geo sc)" ?cp cu "land_troatm st cu" st1]
      by auto
  qed
qed

lemma climatology_pixels_fill:
  assumes "foldE (climatology_pixel x sc DNL_BAND1) js s = Inr s'"
    and "level1_qa_is_fill x (qaband sc p)"
    and "p \<in> set js \<or> ipflag s p = push_bit IPFLAG_FILL 1"
  shows "ipflag s' p = push_bit IPFLAG_FILL 1"
  using assms
proof (induction js arbitrary: s)
  case Nil
  then show ?case by simp
next
  case (Cons a js)
  from Cons.prems(1) obtain t where t: "climatology_pixel x sc DNL_BAND1 a s = Inr t"
    and r: "foldE (climatology_pixel x sc DNL_BAND1) js t = Inr s'"
    by (auto split: sum.splits)
  have "p \<in> set js \<or> ipflag t p = push_bit IPFLAG_FILL 1"
  proof (cases "a = p")
    case True
    then show ?thesis
      using climatology_pixel_ipflag(4) [OF t] Cons.prems(2) by simp
  next
    case False
    then show ?thesis
      using climatology_pixel_ipflag(2) [OF t, of p] Cons.prems(3) by auto
  qed
  then show ?case
    using Cons.IH [OF r Cons.prems(2)] by simp
qed

lemma climatology_band_fill:
  assumes "climatology_band x sc ib st = Inr st'" and "level1_qa_is_fill x (qaband sc p)"
  shows "ib = DNL_BAND1 \<Longrightarrow> p < nlines sc * nsamps sc \<Longrightarrow> ipflag st' p = push_bit IPFLAG_FILL 1"
    and "ib \<noteq> DNL_BAND1 \<Longrightarrow> ipflag st' p = ipflag st p"
    and "sband st' b p = sband st b p"
proof -
  from assms(1) obtain s2 where f: "foldE (climatology_pixel x sc ib) [0..<nlines sc * nsamps sc] s2 = Inr st'"
    and i: "ipflag s2 = ipflag st" "sband s2 = sband st"
    by (rule climatology_band_unfold) simp
  show "ipflag st' p = push_bit IPFLAG_FILL 1" if "ib = DNL_BAND1" "p < nlines sc * nsamps sc"
    using climatology_pixels_fill [OF f [unfolded that(1)] assms(2)] that(2) by simp
  show "ipflag st' p = ipflag st p" if n: "ib \<noteq> DNL_BAND1"
    using f
  proof (rule foldE_invariant)
    show "ipflag s2 p = ipflag st p" using i by simp
  next
    fix a t t'
    assume "ipflag t p = ipflag st p" "climatology_pixel x sc ib a t = Inr t'"
    then show "ipflag t' p = ipflag st p"
      using climatology_pixel_ipflag(3) [OF _ n] by simp
  qed
  show "sband st' b p = sband st b p"
    using f
  proof (rule foldE_invariant)
    show "sband s2 b p = sband st b p" using i by simp
  next
    fix a t t'
    assume "sband t b p = sband st b p" "climatology_pixel x sc ib a t = Inr t'"
    then show "sband t' b p = sband st b p"
      using climatology_pixel_ipflag(5) [OF _ assms(2)] by simp
  qed
qed

lemma climatology_stage_fill:
  assumes c: "climatology_stage x sc st = Inr st'" and f: "level1_qa_is_fill x (qaband sc p)"
    and p: "p < nlines sc * nsamps sc"
  shows "ipflag st' p = push_bit IPFLAG_FILL 1" and "sband st' b p = sband st b p"
proof -
  have u: "[0..<Suc (SRL_BAND7 sc)] = DNL_BAND1 # [1..<Suc (SRL_BAND7 sc)]"
    by (simp add: DNL_BAND1_def upt_rec)
  from c obtain t where t: "climatology_band x sc DNL_BAND1 st = Inr t"
    and r: "foldE (climatology_band x sc) [1..<Suc (SRL_BAND7 sc)] t = Inr st'"
    unfolding climatology_stage_def u by (auto split: sum.splits)
  have "ipflag st' p = push_bit IPFLAG_FILL 1"
    using r
  proof (rule foldE_invariant)
    show "ipflag t p = push_bit IPFLAG_FILL 1"
      using climatology_band_fill(1) [OF t f _ p] by simp
  next
    fix a u u'
    assume a: "a \<in> set [1..<Suc (SRL_BAND7 sc)]" and u: "ipflag u p = push_bit IPFLAG_FILL 1"
      and b: "climatology_band x sc a u = Inr u'"
    from a have "a \<noteq> DNL_BAND1"
      by (auto simp: DNL_BAND1_def)
    then show "ipflag u' p = push_bit IPFLAG_FILL 1"
      using climatology_band_fill(2) [OF b f] u by simp
  qed
  then show "ipflag st' p = push_bit IPFLAG_FILL 1" .
  show "sband st' b p = sband st b p"
    using c unfolding climatology_stage_def
  proof (rule foldE_invariant)
    show "sband st b p = sband st b p" by simp
  next
    fix a u u'
    assume "sband u b p = sband st b p" "climatology_band x sc a u = Inr u'"
    then show "sband u' b p = sband st b p"
      using climatology_band_fill(3) [OF _ f] by simp
  qed
qed

lemma final_pixel_fill:
  assumes "final_pixel x sc ib i t = Inr t'" and "level1_qa_is_fill x (qaband sc p)"
  shows "ipflag t' p = ipflag t p" and "sband t' b p = sband t b p"
  using assms unfolding final_pixel_def Let_def
  by (auto split: if_splits)

lemma final_pixel_coeffs:
  assumes "final_pixel x sc ib i t = Inr t'"
  shows "coeffs t' = coeffs t" and "atm_calls t' = atm_calls t"
  using assms unfolding final_pixel_def Let_def
  by (auto split: if_splits)

lemma final_correction_fill:
  assumes c: "final_correction x sc st = Inr st'" and f: "level1_qa_is_fill x (qaband sc p)"
  shows "ipflag st' p = ipflag st p \<and> (\<forall>b. sband st' b p = sband st b p)"
proof -
  let ?P = "\<lambda>t. ipflag t p = ipflag st p \<and> (\<forall>b. sband t b p = sband st b p)"
  have inner: "?P t'" if "?P t" "foldE (final_pixel x sc ib) js t = Inr t'" for ib js t t'
    using that(2,1)
  proof (rule foldE_invariant [where P = ?P])
    fix a u u'
    assume "?P u" "final_pixel x sc ib a u = Inr u'"
    then show "?P u'"
      using final_pixel_fill [OF _ f, of ib a u u'] by simp
  qed
  from c show ?thesis
    unfolding final_correction_def
  proof (rule foldE_invariant [where P = ?P])
    show "?P st" by simp
  next
    fix ib t t'
    assume "?P t" "foldE (final_pixel x sc ib) [0..<nlines sc * nsamps sc] t = Inr t'"
    then show "?P t'" by (rule inner)
  qed
qed

subsection \<open>Evaluation of the concrete runs\<close>

lemmas eval_defs =
  sr_through_inversion_def compute_landsat_sr_refl_def
  climatology_stage_def climatology_band_def
  climatology_pixel_def climatology_store_def climatology_roslamb_def clamp_refl_def
  aerosol_window_pass_def window_centers.simps aot550nm_def
  aerosol_window_def aero_pixel_def aerosol_retrieve_def land_retrieve_def
  water_retrieval_def water_troatm_def land_troatm_def land_clear_def ndvi_positive_def
  eps_search_def eps_choose_def parabolic_epsmin_def c_divide_def stub_ext_def stub_sub_def
  final_correction_def final_pixel_def reconstruct_toa_def aero_qa_def
  s_scene_def s_scene_nofill_def s_init_def s_win_def s1_coeffs_def
  lasrc_qa_is_water_def Let_def upt_rec
  eps_defs IPFLAG_WATER_def IPFLAG_CLEAR_def IPFLAG_FILL_def AERO1_QA_def AERO2_QA_def band_defs

subsection \<open>The flag byte of a window centre after the inversion\<close>

text \<open>
  Claim C3. After the climatology stage and the aerosol inversion of all windows, a pixel
  that is not fill and whose flag byte was zero when the routine started (in particular
  every such window centre) has a flag byte that is the CLEAR bit alone, the WATER bit
  alone, both bits, or zero.
\<close>

theorem window_center_flags:
  assumes "sr_through_inversion x sc st0 = Inr st2"
    and "\<not> level1_qa_is_fill x (qaband sc p)"
    and "ipflag st0 p = 0"
  shows "ipflag st2 p \<in> {push_bit IPFLAG_CLEAR 1, push_bit IPFLAG_WATER 1,
                          push_bit IPFLAG_CLEAR 1 OR push_bit IPFLAG_WATER 1, 0}"
proof -
  from assms(1) obtain st1 where c: "climatology_stage x sc st0 = Inr st1"
    and w: "aerosol_window_pass x sc st1 = Inr st2"
    by (auto simp: sr_through_inversion_def split: sum.splits)
  have "ipflag st1 p = 0"
    using climatology_stage_ipflag_nonfill [OF c assms(2)] assms(3) by simp
  then have "ipflag st1 p \<in> retrieval_flags"
    by (simp add: retrieval_flags_def)
  then have "ipflag st2 p \<in> retrieval_flags"
    by (rule aerosol_window_pass_flags [OF w])
  then show ?thesis
    by (simp add: retrieval_flags_def)
qed

lemma run_nofill_clear:
  "\<exists>st. sr_through_inversion (stub_ext (4/100) (1/64) (1/400)) s_scene_nofill s_init = Inr st
        \<and> ipflag st 3 = push_bit IPFLAG_CLEAR 1"
  by (simp add: eval_defs)

theorem window_center_flags_witness:
  "\<exists>st. sr_through_inversion (stub_ext (4/100) (1/64) (1/400)) s_scene_nofill s_init = Inr st
        \<and> ipflag st 3 = push_bit IPFLAG_CLEAR 1
        \<and> ipflag st 3 \<in> {push_bit IPFLAG_CLEAR 1, push_bit IPFLAG_WATER 1,
                           push_bit IPFLAG_CLEAR 1 OR push_bit IPFLAG_WATER 1, 0}"
proof -
  from run_nofill_clear obtain st
    where r: "sr_through_inversion (stub_ext (4/100) (1/64) (1/400)) s_scene_nofill s_init = Inr st"
      and v: "ipflag st 3 = push_bit IPFLAG_CLEAR 1"
    by blast
  have n: "\<not> level1_qa_is_fill (stub_ext (4/100) (1/64) (1/400)) (qaband s_scene_nofill 3)"
    by (simp add: stub_ext_def s_scene_nofill_def s_scene_def)
  have z: "ipflag s_init 3 = 0"
    by (simp add: s_init_def)
  from window_center_flags [OF r n z] r v show ?thesis
    by blast
qed

subsection \<open>The set-up of the water retrieval\<close>

lemma run_win_water:
  "\<exists>st1. land_retrieve (stub_ext (1/4) (1/16) 1) s_scene 3 0 0 0 s_win = Inr st1
        \<and> lasrc_qa_is_water (ipflag st1 3)"
  by (simp add: eval_defs)

text \<open>
  Claim C6, as stated, says that no entry of \<^verbatim>\<open>troatm\<close> keeps a value of the land
  retrieval. In the window below the solver is called five times; the fifth call is the
  water retrieval, and its \<^verbatim>\<open>troatm\<close> holds at band 2, which is none of the bands
  1, 4, 5 and 7, the value 0.25 of \<^verbatim>\<open>aerob2\<close> that the first call (a land retrieval)
  was given.
\<close>

theorem water_troatm_counterexample:
  "\<exists>st'. aerosol_window (stub_ext (1/4) (1/16) 1) s_scene 1 1 s_win = Inr st'
      \<and> length (sub_calls st') = 5
      \<and> c_water (sub_calls st' ! 4)
      \<and> DNL_BAND2 \<notin> {DNL_BAND1, DNL_BAND4, DNL_BAND5, DNL_BAND7}
      \<and> c_troatm (sub_calls st' ! 4) DNL_BAND2 = 25/100
      \<and> aerob2 s_win 0 = 25/100
      \<and> \<not> c_water (sub_calls st' ! 0)
      \<and> c_troatm (sub_calls st' ! 0) DNL_BAND2 = 25/100"
  by (simp add: eval_defs)

text \<open>
  Claim C6, amended. When the land retrieval has flagged the window centre as water, the
  window ends with exactly one more call of the solver, with \<open>water = true\<close>,
  \<open>eps = 1.5\<close> and search index 0 (the calls of the land retrieval before it all have
  \<open>water = false\<close>). Its \<^verbatim>\<open>erelc\<close> is 1 for bands 1, 4, 5 and 7 and -1 for every
  other band. Its \<^verbatim>\<open>troatm\<close> holds the snapshots \<^verbatim>\<open>aerob1, aerob4, aerob5, aerob7\<close>
  of the current pixel at bands 1, 4, 5 and 7, still holds \<^verbatim>\<open>aerob2\<close> of the current
  pixel at band 2, as the land retrieval left it, and is 0 at the remaining bands.
\<close>

theorem water_retrieval_call:
  assumes l: "land_retrieve x sc center_pix curr_pix lat lon st = Inr st1"
    and w: "lasrc_qa_is_water (ipflag st1 center_pix)"
  shows "\<exists>st' cs troatm.
           aerosol_retrieve x sc center_pix curr_pix lat lon st = Inr st'
         \<and> sub_calls st' = sub_calls st @ cs
               @ [\<lparr>c_water = True, c_erelc = water_erelc, c_troatm = troatm,
                    c_iaots = 0, c_eps = 1.5\<rparr>]
         \<and> list_all (\<lambda>c. \<not> c_water c) cs
         \<and> (\<forall>ib. water_erelc ib
                = (if ib \<in> {DNL_BAND1, DNL_BAND4, DNL_BAND5, DNL_BAND7} then 1 else - 1))
         \<and> troatm DNL_BAND1 = aerob1 st curr_pix
         \<and> troatm DNL_BAND4 = aerob4 st curr_pix
         \<and> troatm DNL_BAND5 = aerob5 st curr_pix
         \<and> troatm DNL_BAND7 = aerob7 st curr_pix
         \<and> troatm DNL_BAND2 = aerob2 st curr_pix
         \<and> (\<forall>ib. ib \<notin> {DNL_BAND1, DNL_BAND2, DNL_BAND4, DNL_BAND5, DNL_BAND7}
                \<longrightarrow> troatm ib = 0)"
proof -
  let ?tr = "water_troatm st1 curr_pix (land_troatm st curr_pix)"
  let ?st' = "water_retrieval x (xmus (geo sc)) center_pix curr_pix (land_troatm st curr_pix) st1"
  from land_retrieve_fields(11) [OF l] obtain cs
    where cs: "sub_calls st1 = sub_calls st @ cs" "list_all (\<lambda>c. \<not> c_water c) cs"
    by blast
  have r: "aerosol_retrieve x sc center_pix curr_pix lat lon st = Inr ?st'"
    using l w by (simp add: aerosol_retrieve_def)
  have c: "sub_calls ?st' = sub_calls st @ cs
             @ [\<lparr>c_water = True, c_erelc = water_erelc, c_troatm = ?tr,
                  c_iaots = 0, c_eps = 1.5\<rparr>]"
    using cs(1) by (simp add: water_retrieval_fields(8))
  have e: "\<forall>ib. water_erelc ib
                = (if ib \<in> {DNL_BAND1, DNL_BAND4, DNL_BAND5, DNL_BAND7} then 1 else - 1)"
    by (simp add: water_erelc_def)
  have t: "?tr DNL_BAND1 = aerob1 st curr_pix" "?tr DNL_BAND4 = aerob4 st curr_pix"
    "?tr DNL_BAND5 = aerob5 st curr_pix" "?tr DNL_BAND7 = aerob7 st curr_pix"
    "?tr DNL_BAND2 = aerob2 st curr_pix"
    "\<forall>ib. ib \<notin> {DNL_BAND1, DNL_BAND2, DNL_BAND4, DNL_BAND5, DNL_BAND7} \<longrightarrow> ?tr ib = 0"
    using land_retrieve_fields(1-5) [OF l]
    by (simp_all add: water_troatm_def land_troatm_def band_defs)
  show ?thesis
    using r c cs(2) e t by blast
qed

theorem water_retrieval_call_witness:
  "\<exists>st' cs troatm.
     aerosol_retrieve (stub_ext (1/4) (1/16) 1) s_scene 3 0 0 0 s_win = Inr st'
     \<and> sub_calls st' = sub_calls s_win @ cs
           @ [\<lparr>c_water = True, c_erelc = water_erelc, c_troatm = troatm,
                c_iaots = 0, c_eps = 1.5\<rparr>]
     \<and> list_all (\<lambda>c. \<not> c_water c) cs
     \<and> troatm DNL_BAND1 = 30/100 \<and> troatm DNL_BAND4 = 20/100
     \<and> troatm DNL_BAND5 = 35/100 \<and> troatm DNL_BAND7 = 10/100
     \<and> troatm DNL_BAND2 = 25/100"
proof -
  from run_win_water obtain st1
    where l: "land_retrieve (stub_ext (1/4) (1/16) 1) s_scene 3 0 0 0 s_win = Inr st1"
      and w: "lasrc_qa_is_water (ipflag st1 3)"
    by blast
  from water_retrieval_call [OF l w] show ?thesis
    by (simp add: s_win_def) blast
qed

subsection \<open>Fill pixels\<close>

lemma aerosol_window_fill_substitute:
  assumes "level1_qa_is_fill x (qaband sc (cl * nsamps sc + cs))"
    and "find_closest_non_fill x (qaband sc) (nlines sc) (nsamps sc) cl cs
           (LHALF_AERO_WINDOW sc) = Some (i, j)"
    and "from_space x (real i - 0.5) (real j + 0.5) = Some g"
  shows "aerosol_window x sc cl cs st
           = aerosol_retrieve x sc (cl * nsamps sc + cs) (i * nsamps sc + j)
               (geo_lat g * RAD2DEG x) (geo_lon g * RAD2DEG x) st"
  using assms by (simp add: aerosol_window_def aero_pixel_def)

lemma aerosol_retrieve_fill_clear:
  assumes a: "aerosol_retrieve x sc center_pix curr_pix lat lon st = Inr st'"
    and i: "ipflag st center_pix = push_bit IPFLAG_FILL 1"
    and c: "land_clear x st curr_pix
              (eps_search x
                 (land_erelc (guard_neighbours (cmg_index lat lon) (grid st)) (cmg_index lat lon)
                    (compute_xndwi (guard_neighbours (cmg_index lat lon) (grid st))
                       (cmg_index lat lon)
                       (sband st DNL_BAND5 curr_pix) (sband st DNL_BAND7 curr_pix)))
                 (land_troatm st curr_pix) (sub_calls st))
              (xmus (geo sc)) (land_troatm st curr_pix)"
  shows "teps st' center_pix
           = r_eps (eps_search x
                 (land_erelc (guard_neighbours (cmg_index lat lon) (grid st)) (cmg_index lat lon)
                    (compute_xndwi (guard_neighbours (cmg_index lat lon) (grid st))
                       (cmg_index lat lon)
                       (sband st DNL_BAND5 curr_pix) (sband st DNL_BAND7 curr_pix)))
                 (land_troatm st curr_pix) (sub_calls st))"
    and "taero st' center_pix
           = Fin (r_raot (eps_search x
                 (land_erelc (guard_neighbours (cmg_index lat lon) (grid st)) (cmg_index lat lon)
                    (compute_xndwi (guard_neighbours (cmg_index lat lon) (grid st))
                       (cmg_index lat lon)
                       (sband st DNL_BAND5 curr_pix) (sband st DNL_BAND7 curr_pix)))
                 (land_troatm st curr_pix) (sub_calls st)))"
    and "ipflag st' center_pix = push_bit IPFLAG_FILL 1 OR push_bit IPFLAG_CLEAR 1"
proof -
  let ?r = "eps_search x
                 (land_erelc (guard_neighbours (cmg_index lat lon) (grid st)) (cmg_index lat lon)
                    (compute_xndwi (guard_neighbours (cmg_index lat lon) (grid st))
                       (cmg_index lat lon)
                       (sband st DNL_BAND5 curr_pix) (sband st DNL_BAND7 curr_pix)))
                 (land_troatm st curr_pix) (sub_calls st)"
  from a obtain st1 where l: "land_retrieve x sc center_pix curr_pix lat lon st = Inr st1"
    and s: "st' = (if lasrc_qa_is_water (ipflag st1 center_pix)
                   then water_retrieval x (xmus (geo sc)) center_pix curr_pix
                          (land_troatm st curr_pix) st1
                   else st1)"
    by (auto simp: aerosol_retrieve_def split: sum.splits)
  from l c have e: "teps st1 center_pix = r_eps ?r" "taero st1 center_pix = Fin (r_raot ?r)"
    "ipflag st1 center_pix = ipflag st center_pix OR push_bit IPFLAG_CLEAR 1"
    unfolding land_retrieve_def Let_def by (auto split: if_splits)
  have "\<not> lasrc_qa_is_water (ipflag st1 center_pix)"
    unfolding e(3) i
    by (simp add: lasrc_qa_is_water_def IPFLAG_FILL_def IPFLAG_CLEAR_def IPFLAG_WATER_def)
  then have "st' = st1"
    using s by simp
  then show "teps st' center_pix = r_eps ?r" "taero st' center_pix = Fin (r_raot ?r)"
    "ipflag st' center_pix = push_bit IPFLAG_FILL 1 OR push_bit IPFLAG_CLEAR 1"
    using e i by simp_all
qed

text \<open>
  Claim C5, as stated, says that every stage skips a fill pixel and that a fill pixel
  never receives a retrieval classification. In the scene of two lines and two samples
  the window centre, pixel 3, is fill and pixel 0 is its substitute. The inversion is
  not skipped: it runs on the radiometry of pixel 0, classifies the window as clear, and
  writes at the fill centre the exponent 2.5, the optical thickness 0.2 (both were 0)
  and the CLEAR bit beside the FILL bit. With a filler and an interpolator that leave
  the flag bytes as they are, the routine ends with the same flag byte.
\<close>

theorem fill_centre_counterexample:
  "level1_qa_is_fill (stub_ext (4/100) (1/64) (1/400)) (qaband s_scene 3)
   \<and> ipflag s_init 3 = 0 \<and> teps s_init 3 = Fin 0 \<and> taero s_init 3 = Fin 0
   \<and> (\<exists>st. sr_through_inversion (stub_ext (4/100) (1/64) (1/400)) s_scene s_init = Inr st
         \<and> ipflag st 3 = push_bit IPFLAG_FILL 1 OR push_bit IPFLAG_CLEAR 1
         \<and> bit (ipflag st 3) IPFLAG_CLEAR
         \<and> teps st 3 = Fin HIGH_EPS \<and> taero st 3 = Fin (2/10))
   \<and> (\<exists>st. compute_landsat_sr_refl (stub_ext (4/100) (1/64) (1/400)) s_scene s_init = Inr st
         \<and> ipflag st 3 = push_bit IPFLAG_FILL 1 OR push_bit IPFLAG_CLEAR 1
         \<and> bit (ipflag st 3) IPFLAG_CLEAR)"
  by (simp add: eval_defs)

text \<open>
  Claim C5, amended. For every pixel flagged fill in the level-1 QA band: the climatology
  stage sets its flag byte to the FILL bit alone and leaves its reflectances as they
  are; the final correction leaves its flag byte and its reflectances as they are; the
  aerosol inversion leaves its flag byte, \<^verbatim>\<open>taero\<close> and \<^verbatim>\<open>teps\<close> as they are unless
  it is a window centre for which a substitute pixel is found. A fill window centre with
  a substitute is not skipped: its window is the retrieval that reads the radiometry of
  the substitute, at the location of the substitute, and writes at the centre; when the
  land test on the substitute's radiometry gives clear, the centre receives the
  exponent and the optical thickness of that retrieval and the CLEAR bit beside the FILL
  bit; and whenever the window leaves the centre flagged clear and not water, the FILL
  bit is still set.
\<close>

theorem fill_pixel_stages:
  assumes f: "level1_qa_is_fill x (qaband sc p)" and p: "p < nlines sc * nsamps sc"
  shows
    "(\<forall>st st'. climatology_stage x sc st = Inr st'
        \<longrightarrow> ipflag st' p = push_bit IPFLAG_FILL 1 \<and> (\<forall>b. sband st' b p = sband st b p))
   \<and> (\<forall>st st'. aerosol_window_pass x sc st = Inr st'
          \<and> (\<forall>i \<in> set (window_centers (LAERO_WINDOW sc) (nlines sc) (LHALF_AERO_WINDOW sc)).
               \<forall>j \<in> set (window_centers (LAERO_WINDOW sc) (nsamps sc) (LHALF_AERO_WINDOW sc)).
                 i * nsamps sc + j = p
                 \<longrightarrow> find_closest_non_fill x (qaband sc) (nlines sc) (nsamps sc) i j
                       (LHALF_AERO_WINDOW sc) = None)
        \<longrightarrow> ipflag st' p = ipflag st p \<and> taero st' p = taero st p \<and> teps st' p = teps st p)
   \<and> (\<forall>cl cs i j g st. cl * nsamps sc + cs = p
          \<and> find_closest_non_fill x (qaband sc) (nlines sc) (nsamps sc) cl cs
              (LHALF_AERO_WINDOW sc) = Some (i, j)
          \<and> from_space x (real i - 0.5) (real j + 0.5) = Some g
        \<longrightarrow> aerosol_window x sc cl cs st
              = aerosol_retrieve x sc p (i * nsamps sc + j)
                  (geo_lat g * RAD2DEG x) (geo_lon g * RAD2DEG x) st)
   \<and> (\<forall>q lat lon st st' loc g r. aerosol_retrieve x sc p q lat lon st = Inr st'
          \<and> ipflag st p = push_bit IPFLAG_FILL 1
          \<and> loc = cmg_index lat lon \<and> g = guard_neighbours loc (grid st)
          \<and> r = eps_search x
                  (land_erelc g loc
                     (compute_xndwi g loc (sband st DNL_BAND5 q) (sband st DNL_BAND7 q)))
                  (land_troatm st q) (sub_calls st)
          \<and> land_clear x st q r (xmus (geo sc)) (land_troatm st q)
        \<longrightarrow> teps st' p = r_eps r \<and> taero st' p = Fin (r_raot r)
            \<and> ipflag st' p = push_bit IPFLAG_FILL 1 OR push_bit IPFLAG_CLEAR 1)
   \<and> (\<forall>cl cs st st'. cl * nsamps sc + cs = p
          \<and> aerosol_window x sc cl cs st = Inr st'
          \<and> ipflag st p = push_bit IPFLAG_FILL 1
          \<and> bit (ipflag st' p) IPFLAG_CLEAR \<and> \<not> bit (ipflag st' p) IPFLAG_WATER
        \<longrightarrow> ipflag st' p = push_bit IPFLAG_FILL 1 OR push_bit IPFLAG_CLEAR 1)
   \<and> (\<forall>st st'. final_correction x sc st = Inr st'
        \<longrightarrow> ipflag st' p = ipflag st p \<and> (\<forall>b. sband st' b p = sband st b p))"
proof (intro conjI allI impI)
  fix st st'
  assume "climatology_stage x sc st = Inr st'"
  from climatology_stage_fill [OF this f p]
  show "ipflag st' p = push_bit IPFLAG_FILL 1" and "\<And>b. sband st' b p = sband st b p"
    by simp_all
next
  fix st st'
  assume a: "aerosol_window_pass x sc st = Inr st'
          \<and> (\<forall>i \<in> set (window_centers (LAERO_WINDOW sc) (nlines sc) (LHALF_AERO_WINDOW sc)).
               \<forall>j \<in> set (window_centers (LAERO_WINDOW sc) (nsamps sc) (LHALF_AERO_WINDOW sc)).
                 i * nsamps sc + j = p
                 \<longrightarrow> find_closest_non_fill x (qaband sc) (nlines sc) (nsamps sc) i j
                       (LHALF_AERO_WINDOW sc) = None)"
  then have n: "\<forall>i \<in> set (window_centers (LAERO_WINDOW sc) (nlines sc) (LHALF_AERO_WINDOW sc)).
            \<forall>j \<in> set (window_centers (LAERO_WINDOW sc) (nsamps sc) (LHALF_AERO_WINDOW sc)).
              i * nsamps sc + j = p \<longrightarrow> aero_pixel x sc i j = None"
    using f by (auto simp: aero_pixel_def)
  from a have w: "aerosol_window_pass x sc st = Inr st'"
    by simp
  from aerosol_window_pass_skip [OF w n]
  show "ipflag st' p = ipflag st p" and "taero st' p = taero st p" and "teps st' p = teps st p"
    by simp_all
next
  fix cl cs i j g st
  assume a: "cl * nsamps sc + cs = p
          \<and> find_closest_non_fill x (qaband sc) (nlines sc) (nsamps sc) cl cs
              (LHALF_AERO_WINDOW sc) = Some (i, j)
          \<and> from_space x (real i - 0.5) (real j + 0.5) = Some g"
  then have "level1_qa_is_fill x (qaband sc (cl * nsamps sc + cs))"
    using f by simp
  from aerosol_window_fill_substitute [OF this] a
  show "aerosol_window x sc cl cs st
              = aerosol_retrieve x sc p (i * nsamps sc + j)
                  (geo_lat g * RAD2DEG x) (geo_lon g * RAD2DEG x) st"
    by simp
next
  fix q lat lon st st' loc g r
  assume a: "aerosol_retrieve x sc p q lat lon st = Inr st'
          \<and> ipflag st p = push_bit IPFLAG_FILL 1
          \<and> loc = cmg_index lat lon \<and> g = guard_neighbours loc (grid st)
          \<and> r = eps_search x
                  (land_erelc g loc
                     (compute_xndwi g loc (sband st DNL_BAND5 q) (sband st DNL_BAND7 q)))
                  (land_troatm st q) (sub_calls st)
          \<and> land_clear x st q r (xmus (geo sc)) (land_troatm st q)"
  then have 1: "aerosol_retrieve x sc p q lat lon st = Inr st'"
    and 2: "ipflag st p = push_bit IPFLAG_FILL 1"
    and 3: "land_clear x st q
              (eps_search x
                 (land_erelc (guard_neighbours (cmg_index lat lon) (grid st)) (cmg_index lat lon)
                    (compute_xndwi (guard_neighbours (cmg_index lat lon) (grid st))
                       (cmg_index lat lon)
                       (sband st DNL_BAND5 q) (sband st DNL_BAND7 q)))
                 (land_troatm st q) (sub_calls st))
              (xmus (geo sc)) (land_troatm st q)"
    by auto
  from aerosol_retrieve_fill_clear [OF 1 2 3] a
  show "teps st' p = r_eps r" and "taero st' p = Fin (r_raot r)"
    and "ipflag st' p = push_bit IPFLAG_FILL 1 OR push_bit IPFLAG_CLEAR 1"
    by simp_all
next
  fix cl cs st st'
  assume a: "cl * nsamps sc + cs = p
          \<and> aerosol_window x sc cl cs st = Inr st'
          \<and> ipflag st p = push_bit IPFLAG_FILL 1
          \<and> bit (ipflag st' p) IPFLAG_CLEAR \<and> \<not> bit (ipflag st' p) IPFLAG_WATER"
  then have "ipflag st' p \<in>
           {push_bit IPFLAG_FILL 1, push_bit IPFLAG_FILL 1 OR push_bit IPFLAG_CLEAR 1, 0,
            push_bit IPFLAG_CLEAR 1 OR push_bit IPFLAG_WATER 1}"
    using aerosol_window_fill_centre [of x sc cl cs st st'] by auto
  then show "ipflag st' p = push_bit IPFLAG_FILL 1 OR push_bit IPFLAG_CLEAR 1"
    using a by (auto simp: IPFLAG_FILL_def IPFLAG_CLEAR_def IPFLAG_WATER_def)
next
  fix st st'
  assume "final_correction x sc st = Inr st'"
  from final_correction_fill [OF this f]
  show "ipflag st' p = ipflag st p" and "\<And>b. sband st' b p = sband st b p"
    by simp_all
qed

lemma run_climatology:
  "\<exists>st. climatology_stage (stub_ext (1/4) (1/16) 1) s_scene s_init = Inr st"
  by (simp add: eval_defs)

lemma run_pass_alone:
  "\<exists>st. aerosol_window_pass
          ((stub_ext (1/4) (1/16) 1)\<lparr>find_closest_non_fill := (\<lambda>qa nl ns cl cs h. None)\<rparr>)
          s_scene s_win = Inr st"
  by (simp add: eval_defs)

lemma run_win_clear:
  "\<exists>st. aerosol_window (stub_ext (4/100) (1/64) (1/400)) s_scene 1 1 s_win = Inr st
        \<and> bit (ipflag st 3) IPFLAG_CLEAR \<and> \<not> bit (ipflag st 3) IPFLAG_WATER"
  by (simp add: eval_defs)

lemma run_retrieve_clear:
  "(\<exists>st. aerosol_retrieve (stub_ext (4/100) (1/64) (1/400)) s_scene 3 0 0 0 s_win = Inr st)
   \<and> eps_search (stub_ext (4/100) (1/64) (1/400))
       (land_erelc (guard_neighbours (cmg_index 0 0) (grid s_win)) (cmg_index 0 0)
          (compute_xndwi (guard_neighbours (cmg_index 0 0) (grid s_win)) (cmg_index 0 0)
             (sband s_win DNL_BAND5 0) (sband s_win DNL_BAND7 0)))
       (land_troatm s_win 0) (sub_calls s_win)
     = \<lparr>r_eps = Fin HIGH_EPS, r_raot = 2/10, r_residual = 1/400,
        r_calls =
          [\<lparr>c_water = False,
            c_erelc = land_erelc (guard_neighbours (cmg_index 0 0) (grid s_win)) (cmg_index 0 0)
               (compute_xndwi (guard_neighbours (cmg_index 0 0) (grid s_win)) (cmg_index 0 0)
                  (sband s_win DNL_BAND5 0) (sband s_win DNL_BAND7 0)),
            c_troatm = land_troatm s_win 0, c_iaots = 0, c_eps = LOW_EPS\<rparr>,
           \<lparr>c_water = False,
            c_erelc = land_erelc (guard_neighbours (cmg_index 0 0) (grid s_win)) (cmg_index 0 0)
               (compute_xndwi (guard_neighbours (cmg_index 0 0) (grid s_win)) (cmg_index 0 0)
                  (sband s_win DNL_BAND5 0) (sband s_win DNL_BAND7 0)),
            c_troatm = land_troatm s_win 0, c_iaots = 1, c_eps = MOD_EPS\<rparr>,
           \<lparr>c_water = False,
            c_erelc = land_erelc (guard_neighbours (cmg_index 0 0) (grid s_win)) (cmg_index 0 0)
               (compute_xndwi (guard_neighbours (cmg_index 0 0) (grid s_win)) (cmg_index 0 0)
                  (sband s_win DNL_BAND5 0) (sband s_win DNL_BAND7 0)),
            c_troatm = land_troatm s_win 0, c_iaots = 2, c_eps = HIGH_EPS\<rparr>]\<rparr>"
  by (simp add: eval_defs)

lemma run_final:
  "\<exists>st. final_correction (stub_ext (1/4) (1/16) 1) s_scene s_win = Inr st"
  by (simp add: eval_defs)

theorem fill_pixel_stages_witness:
  "(\<exists>st'. climatology_stage (stub_ext (1/4) (1/16) 1) s_scene s_init = Inr st'
          \<and> ipflag st' 3 = push_bit IPFLAG_FILL 1)
   \<and> (\<exists>st'. aerosol_window_pass
               ((stub_ext (1/4) (1/16) 1)\<lparr>find_closest_non_fill := (\<lambda>qa nl ns cl cs h. None)\<rparr>)
               s_scene s_win = Inr st'
          \<and> ipflag st' 3 = ipflag s_win 3)
   \<and> aerosol_window (stub_ext (4/100) (1/64) (1/400)) s_scene 1 1 s_win
       = aerosol_retrieve (stub_ext (4/100) (1/64) (1/400)) s_scene 3 0 0 0 s_win
   \<and> (\<exists>st'. aerosol_window (stub_ext (4/100) (1/64) (1/400)) s_scene 1 1 s_win = Inr st'
          \<and> teps st' 3 = Fin HIGH_EPS \<and> taero st' 3 = Fin (2/10)
          \<and> ipflag st' 3 = push_bit IPFLAG_FILL 1 OR push_bit IPFLAG_CLEAR 1)
   \<and> (\<exists>st'. final_correction (stub_ext (1/4) (1/16) 1) s_scene s_win = Inr st'
          \<and> ipflag st' 3 = ipflag s_win 3)"
proof -
  let ?X = "stub_ext (1/4) (1/16) 1"
  let ?Xn = "?X\<lparr>find_closest_non_fill := (\<lambda>qa nl ns cl cs h. None)\<rparr>"
  let ?Xc = "stub_ext (4/100) (1/64) (1/400)"
  let ?loc = "cmg_index 0 0"
  let ?g = "guard_neighbours ?loc (grid s_win)"
  let ?r = "eps_search ?Xc
       (land_erelc ?g ?loc
          (compute_xndwi ?g ?loc (sband s_win DNL_BAND5 0) (sband s_win DNL_BAND7 0)))
       (land_troatm s_win 0) (sub_calls s_win)"
  have p: "3 < nlines s_scene * nsamps s_scene"
    by (simp add: s_scene_def)
  have f: "level1_qa_is_fill ?X (qaband s_scene 3)"
    by (simp add: stub_ext_def s_scene_def)
  have f0: "level1_qa_is_fill ?Xn (qaband s_scene 3)"
    by (simp add: stub_ext_def s_scene_def)
  have fc: "level1_qa_is_fill ?Xc (qaband s_scene 3)"
    by (simp add: stub_ext_def s_scene_def)
  have n: "\<forall>i \<in> set (window_centers (LAERO_WINDOW s_scene) (nlines s_scene)
                        (LHALF_AERO_WINDOW s_scene)).
           \<forall>j \<in> set (window_centers (LAERO_WINDOW s_scene) (nsamps s_scene)
                        (LHALF_AERO_WINDOW s_scene)).
             i * nsamps s_scene + j = 3
             \<longrightarrow> find_closest_non_fill ?Xn (qaband s_scene) (nlines s_scene) (nsamps s_scene)
                   i j (LHALF_AERO_WINDOW s_scene) = None"
    by (simp add: stub_ext_def)
  have i: "ipflag s_win 3 = push_bit IPFLAG_FILL 1"
    by (simp add: s_win_def IPFLAG_FILL_def)
  from run_climatology obtain a where a: "climatology_stage ?X s_scene s_init = Inr a"
    by blast
  from run_pass_alone obtain b where b: "aerosol_window_pass ?Xn s_scene s_win = Inr b"
    by blast
  from run_win_clear obtain c where c: "aerosol_window ?Xc s_scene 1 1 s_win = Inr c"
    and c1: "bit (ipflag c 3) IPFLAG_CLEAR" and c2: "\<not> bit (ipflag c 3) IPFLAG_WATER"
    by blast
  from run_final obtain d where d: "final_correction ?X s_scene s_win = Inr d"
    by blast
  have k: "1 * nsamps s_scene + 1 = 3"
    by (simp add: s_scene_def)
  have fs: "find_closest_non_fill ?Xc (qaband s_scene) (nlines s_scene) (nsamps s_scene) 1 1
              (LHALF_AERO_WINDOW s_scene) = Some (0, 0)"
    by (simp add: stub_ext_def)
  have sp: "from_space ?Xc (real 0 - 0.5) (real 0 + 0.5) = Some \<lparr>geo_lat = 0, geo_lon = 0\<rparr>"
    by (simp add: stub_ext_def)
  have "ipflag a 3 = push_bit IPFLAG_FILL 1"
    using fill_pixel_stages [OF f p, THEN conjunct1] a by blast
  moreover have "ipflag b 3 = ipflag s_win 3"
    using fill_pixel_stages [OF f0 p, THEN conjunct2, THEN conjunct1] b n by blast
  moreover have w: "aerosol_window ?Xc s_scene 1 1 s_win
                      = aerosol_retrieve ?Xc s_scene 3 0 0 0 s_win"
    using fill_pixel_stages [OF fc p, THEN conjunct2, THEN conjunct2, THEN conjunct1,
            THEN spec, THEN spec, THEN spec, THEN spec, THEN spec, THEN spec,
            of 1 1 0 0 "\<lparr>geo_lat = 0, geo_lon = 0\<rparr>" s_win]
      k fs sp
    by (simp add: s_scene_def)
  moreover have "teps c 3 = Fin HIGH_EPS \<and> taero c 3 = Fin (2/10)
                 \<and> ipflag c 3 = push_bit IPFLAG_FILL 1 OR push_bit IPFLAG_CLEAR 1"
  proof -
    have r: "aerosol_retrieve ?Xc s_scene 3 0 0 0 s_win = Inr c"
      using c w by simp
    have v: "?r = \<lparr>r_eps = Fin HIGH_EPS, r_raot = 2/10, r_residual = 1/400,
                   r_calls = r_calls ?r\<rparr>"
      using run_retrieve_clear [THEN conjunct2] by simp
    have lc: "land_clear ?Xc s_win 0 ?r (xmus (geo s_scene)) (land_troatm s_win 0)"
      by (subst v) (simp add: land_clear_def ndvi_positive_def land_troatm_def stub_ext_def
            s_win_def s_scene_def Let_def band_defs)
    have "teps c 3 = r_eps ?r \<and> taero c 3 = Fin (r_raot ?r)
            \<and> ipflag c 3 = push_bit IPFLAG_FILL 1 OR push_bit IPFLAG_CLEAR 1"
      using fill_pixel_stages [OF fc p, THEN conjunct2, THEN conjunct2, THEN conjunct2,
              THEN conjunct1, THEN spec, THEN spec, THEN spec, THEN spec, THEN spec,
              THEN spec, THEN spec, THEN spec, of 0 0 0 s_win c ?loc ?g ?r]
        r i lc
      by blast
    then show ?thesis
      by (subst (asm) (1 2) v) simp
  qed
  moreover have "ipflag c 3 = push_bit IPFLAG_FILL 1 OR push_bit IPFLAG_CLEAR 1"
    using fill_pixel_stages [OF fc p, THEN conjunct2, THEN conjunct2, THEN conjunct2,
            THEN conjunct2, THEN conjunct1]
      k c i c1 c2 by blast
  moreover have "ipflag d 3 = ipflag s_win 3"
    using fill_pixel_stages [OF f p, THEN conjunct2, THEN conjunct2, THEN conjunct2,
            THEN conjunct2, THEN conjunct2] d
    by blast
  ultimately show ?thesis
    using a b c d by blast
qed

text \<open>
  When the land test flags the centre as water, the water test that follows assigns the
  flag byte of the centre (lines 1180 and 1186) where the land test ors a bit into it
  (lines 1123-1134). In the same scene with a solver whose residuals make the land test
  fail, the flag byte of the fill centre is 0 after the inversion: the FILL bit that the
  climatology stage had set is gone, and the exponent 1.5 of the water retrieval is
  written at the pixel.
\<close>

lemma fill_centre_water_run:
  "level1_qa_is_fill (stub_ext (1/4) (1/16) 1) (qaband s_scene 3)
   \<and> (\<exists>st. sr_through_inversion (stub_ext (1/4) (1/16) 1) s_scene s_init = Inr st
         \<and> ipflag st 3 = 0 \<and> \<not> bit (ipflag st 3) IPFLAG_FILL \<and> teps st 3 = Fin (3/2))"
  by (simp add: eval_defs)

subsection \<open>The coefficients of the climatology correction\<close>

lemma climatology_store_cong:
  assumes "btgo c ib = btgo c' ib" "broatm c ib = broatm c' ib"
    "bttatmg c ib = bttatmg c' ib" "bsatm c ib = bsatm c' ib"
  shows "climatology_store lo hi c ib v = climatology_store lo hi c' ib v"
  using assms by (simp add: climatology_store_def climatology_roslamb_def)

lemma climatology_pixel_sband:
  assumes "climatology_pixel x sc ib i t = Inr t'"
  shows "b \<noteq> ib \<Longrightarrow> sband t' b = sband t b"
    and "q \<noteq> i \<Longrightarrow> sband t' b q = sband t b q"
    and "\<not> level1_qa_is_fill x (qaband sc i) \<Longrightarrow>
           sband t' ib i = climatology_store (MIN_VALID_REFL sc) (MAX_VALID_REFL sc)
                             (coeffs t) ib (sband t ib i)"
  using assms unfolding climatology_pixel_def Let_def
  by (auto split: if_splits)

lemma climatology_pixels_sband:
  assumes "foldE (climatology_pixel x sc ib) js s = Inr s'" and "distinct js"
  shows "coeffs s' = coeffs s"
    and "atm_calls s' = atm_calls s"
    and "b \<noteq> ib \<Longrightarrow> sband s' b = sband s b"
    and "i \<notin> set js \<Longrightarrow> sband s' ib i = sband s ib i"
    and "i \<in> set js \<Longrightarrow> \<not> level1_qa_is_fill x (qaband sc i) \<Longrightarrow>
           sband s' ib i = climatology_store (MIN_VALID_REFL sc) (MAX_VALID_REFL sc)
                             (coeffs s) ib (sband s ib i)"
  using assms
proof (induction js arbitrary: s)
  case Nil
  { case 1 then show ?case by simp }
  { case 2 then show ?case by simp }
  { case 3 then show ?case by simp }
  { case 4 then show ?case by simp }
  { case 5 then show ?case by simp }
next
  case (Cons a js)
  { case 1
    then obtain t where t: "climatology_pixel x sc ib a s = Inr t"
      and r: "foldE (climatology_pixel x sc ib) js t = Inr s'" by (auto split: sum.splits)
    show ?case using Cons.IH(1) [OF r] 1(2) climatology_pixel_ipflag(6) [OF t] by simp }
  { case 2
    then obtain t where t: "climatology_pixel x sc ib a s = Inr t"
      and r: "foldE (climatology_pixel x sc ib) js t = Inr s'" by (auto split: sum.splits)
    show ?case using Cons.IH(2) [OF r] 2(2) climatology_pixel_ipflag(7) [OF t] by simp }
  { case 3
    then obtain t where t: "climatology_pixel x sc ib a s = Inr t"
      and r: "foldE (climatology_pixel x sc ib) js t = Inr s'" by (auto split: sum.splits)
    show ?case using Cons.IH(3) [OF 3(1) r] 3(3) climatology_pixel_sband(1) [OF t 3(1)] by simp }
  { case 4
    then obtain t where t: "climatology_pixel x sc ib a s = Inr t"
      and r: "foldE (climatology_pixel x sc ib) js t = Inr s'" by (auto split: sum.splits)
    from 4(1) have "i \<notin> set js" "i \<noteq> a" by auto
    then show ?case
      using Cons.IH(4) [OF _ r] 4(3) climatology_pixel_sband(2) [OF t] by simp }
  { case 5
    then obtain t where t: "climatology_pixel x sc ib a s = Inr t"
      and r: "foldE (climatology_pixel x sc ib) js t = Inr s'" by (auto split: sum.splits)
    from 5(4) have d: "distinct js" "a \<notin> set js" by auto
    show ?case
    proof (cases "i = a")
      case True
      then have "sband s' ib i = sband t ib i"
        using Cons.IH(4) [OF _ r d(1)] d(2) by simp
      then show ?thesis
        using climatology_pixel_sband(3) [OF t] 5(2) True by simp
    next
      case False
      then have "i \<in> set js" using 5(1) by simp
      from Cons.IH(5) [OF this 5(2) r d(1)]
      show ?thesis
        using climatology_pixel_ipflag(6) [OF t] climatology_pixel_sband(2) [OF t False]
        by simp
    qed }
qed

lemma climatology_band_effect:
  assumes b: "climatology_band x sc ib st = Inr st'"
  shows "atm_calls st' = atm_calls st @ [(geo sc, aot550nm ! 1, ib, 2.5)]"
    and "\<exists>out. atmcorlamb2 x (geo sc) (aot550nm ! 1) ib 0 2.5 = Some out
           \<and> btgo (coeffs st') ib = out_tgo out \<and> broatm (coeffs st') ib = out_roatm out
           \<and> bttatmg (coeffs st') ib = out_ttatmg out \<and> bsatm (coeffs st') ib = out_satm out"
    and "b' \<noteq> ib \<Longrightarrow> btgo (coeffs st') b' = btgo (coeffs st) b'
           \<and> broatm (coeffs st') b' = broatm (coeffs st) b'
           \<and> bttatmg (coeffs st') b' = bttatmg (coeffs st) b'
           \<and> bsatm (coeffs st') b' = bsatm (coeffs st) b'"
    and "b' \<noteq> ib \<Longrightarrow> sband st' b' = sband st b'"
    and "i < nlines sc * nsamps sc \<Longrightarrow> \<not> level1_qa_is_fill x (qaband sc i) \<Longrightarrow>
           sband st' ib i = climatology_store (MIN_VALID_REFL sc) (MAX_VALID_REFL sc)
                              (coeffs st') ib (sband st ib i)"
proof -
  from b obtain out s2 where o: "atmcorlamb2 x (geo sc) (aot550nm ! 1) ib 0 2.5 = Some out"
    and s2: "s2 = st\<lparr>atm_calls := atm_calls st @ [(geo sc, aot550nm ! 1, ib, 2.5)],
               coeffs := (coeffs st)\<lparr>btgo := (btgo (coeffs st))(ib := out_tgo out),
                                       broatm := (broatm (coeffs st))(ib := out_roatm out),
                                       bttatmg := (bttatmg (coeffs st))(ib := out_ttatmg out),
                                       bsatm := (bsatm (coeffs st))(ib := out_satm out)\<rparr>\<rparr>"
    and f: "foldE (climatology_pixel x sc ib) [0..<nlines sc * nsamps sc] s2 = Inr st'"
    by (rule climatology_band_unfold) simp
  have d: "distinct [0..<nlines sc * nsamps sc]"
    by simp
  note p = climatology_pixels_sband [OF f d]
  show "atm_calls st' = atm_calls st @ [(geo sc, aot550nm ! 1, ib, 2.5)]"
    using p(2) s2 by simp
  show "\<exists>out. atmcorlamb2 x (geo sc) (aot550nm ! 1) ib 0 2.5 = Some out
           \<and> btgo (coeffs st') ib = out_tgo out \<and> broatm (coeffs st') ib = out_roatm out
           \<and> bttatmg (coeffs st') ib = out_ttatmg out \<and> bsatm (coeffs st') ib = out_satm out"
    using o p(1) s2 by simp
  show "btgo (coeffs st') b' = btgo (coeffs st) b'
           \<and> broatm (coeffs st') b' = broatm (coeffs st) b'
           \<and> bttatmg (coeffs st') b' = bttatmg (coeffs st) b'
           \<and> bsatm (coeffs st') b' = bsatm (coeffs st) b'" if "b' \<noteq> ib"
    using that p(1) s2 by simp
  show "sband st' b' = sband st b'" if "b' \<noteq> ib"
    using that p(3) s2 by simp
  show "sband st' ib i = climatology_store (MIN_VALID_REFL sc) (MAX_VALID_REFL sc)
                              (coeffs st') ib (sband st ib i)"
    if "i < nlines sc * nsamps sc" "\<not> level1_qa_is_fill x (qaband sc i)"
    using p(5) [of i] that p(1) s2 by simp
qed

lemma climatology_bands_calls:
  "foldE (climatology_band x sc) bs st = Inr st' \<Longrightarrow>
   atm_calls st' = atm_calls st @ map (\<lambda>b. (geo sc, aot550nm ! 1, b, 2.5)) bs"
proof (induction bs arbitrary: st)
  case Nil
  then show ?case by simp
next
  case (Cons a bs)
  then obtain t where t: "climatology_band x sc a st = Inr t"
    and r: "foldE (climatology_band x sc) bs t = Inr st'"
    by (auto split: sum.splits)
  show ?case
    using Cons.IH [OF r] climatology_band_effect(1) [OF t] by simp
qed

lemma climatology_bands_other:
  assumes "foldE (climatology_band x sc) bs st = Inr st'" and "ib \<notin> set bs"
  shows "btgo (coeffs st') ib = btgo (coeffs st) ib \<and> broatm (coeffs st') ib = broatm (coeffs st) ib
       \<and> bttatmg (coeffs st') ib = bttatmg (coeffs st) ib
       \<and> bsatm (coeffs st') ib = bsatm (coeffs st) ib
       \<and> sband st' ib = sband st ib"
  using assms
proof (induction bs arbitrary: st)
  case Nil
  then show ?case by simp
next
  case (Cons a bs)
  then obtain t where t: "climatology_band x sc a st = Inr t"
    and r: "foldE (climatology_band x sc) bs t = Inr st'"
    by (auto split: sum.splits)
  from Cons.prems(2) have n: "ib \<noteq> a" "ib \<notin> set bs"
    by auto
  show ?case
    using Cons.IH [OF r n(2)] climatology_band_effect(3,4) [OF t n(1)] by simp
qed

lemma climatology_bands_coeffs:
  assumes "foldE (climatology_band x sc) bs st = Inr st'" and "distinct bs" and "ib \<in> set bs"
  shows "\<exists>out. atmcorlamb2 x (geo sc) (aot550nm ! 1) ib 0 2.5 = Some out
           \<and> btgo (coeffs st') ib = out_tgo out \<and> broatm (coeffs st') ib = out_roatm out
           \<and> bttatmg (coeffs st') ib = out_ttatmg out \<and> bsatm (coeffs st') ib = out_satm out"
    and "i < nlines sc * nsamps sc \<Longrightarrow> \<not> level1_qa_is_fill x (qaband sc i) \<Longrightarrow>
           sband st' ib i = climatology_store (MIN_VALID_REFL sc) (MAX_VALID_REFL sc)
                              (coeffs st') ib (sband st ib i)"
  using assms
proof (induction bs arbitrary: st)
  case Nil
  { case 1 then show ?case by simp }
  { case 2 then show ?case by simp }
next
  case (Cons a bs)
  { case 1
    then obtain t where t: "climatology_band x sc a st = Inr t"
      and r: "foldE (climatology_band x sc) bs t = Inr st'"
      by (auto split: sum.splits)
    from 1(2) have d: "distinct bs" "a \<notin> set bs" by auto
    show ?case
    proof (cases "ib = a")
      case True
      then show ?thesis
        using climatology_band_effect(2) [OF t] climatology_bands_other [OF r d(2)] by simp
    next
      case False
      then have "ib \<in> set bs" using 1(3) by simp
      from Cons.IH(1) [OF r d(1) this] show ?thesis .
    qed }
  { case 2
    then obtain t where t: "climatology_band x sc a st = Inr t"
      and r: "foldE (climatology_band x sc) bs t = Inr st'"
      by (auto split: sum.splits)
    from 2(4) have d: "distinct bs" "a \<notin> set bs" by auto
    show ?case
    proof (cases "ib = a")
      case True
      have o: "btgo (coeffs st') a = btgo (coeffs t) a \<and> broatm (coeffs st') a = broatm (coeffs t) a
             \<and> bttatmg (coeffs st') a = bttatmg (coeffs t) a
             \<and> bsatm (coeffs st') a = bsatm (coeffs t) a \<and> sband st' a = sband t a"
        using climatology_bands_other [OF r d(2)] .
      have "sband st' a i = climatology_store (MIN_VALID_REFL sc) (MAX_VALID_REFL sc)
                              (coeffs t) a (sband st a i)"
        using o climatology_band_effect(5) [OF t 2(1) 2(2)] by simp
      also have "\<dots> = climatology_store (MIN_VALID_REFL sc) (MAX_VALID_REFL sc)
                              (coeffs st') a (sband st a i)"
        using o by (intro climatology_store_cong) simp_all
      finally show ?thesis using True by simp
    next
      case False
      then have m: "ib \<in> set bs" using 2(5) by simp
      from Cons.IH(2) [OF 2(1) 2(2) r d(1) m]
      show ?thesis
        using climatology_band_effect(4) [OF t False] by simp
    qed }
qed

lemma aerosol_window_coeffs:
  assumes "aerosol_window x sc cl cs st = Inr st'"
  shows "coeffs st' = coeffs st"
  using assms aerosol_retrieve_other(2)
  unfolding aerosol_window_def
  by (fastforce split: option.splits prod.splits)

lemma aerosol_window_pass_coeffs:
  assumes w: "aerosol_window_pass x sc st = Inr st'"
  shows "coeffs st' = coeffs st"
proof -
  let ?P = "\<lambda>t. coeffs t = coeffs st"
  let ?js = "window_centers (LAERO_WINDOW sc) (nsamps sc) (LHALF_AERO_WINDOW sc)"
  let ?is = "window_centers (LAERO_WINDOW sc) (nlines sc) (LHALF_AERO_WINDOW sc)"
  have inner: "?P t'" if "?P t" "foldE (aerosol_window x sc i) ?js t = Inr t'" for i t t'
    using that(2,1)
  proof (rule foldE_invariant [where P = ?P])
    fix j u u'
    assume "?P u" "aerosol_window x sc i j u = Inr u'"
    then show "?P u'"
      using aerosol_window_coeffs [of x sc i j u u'] by simp
  qed
  from w have "foldE (\<lambda>i. foldE (aerosol_window x sc i) ?js) ?is st = Inr st'"
    by (simp add: aerosol_window_pass_def split: if_splits)
  then show ?thesis
  proof (rule foldE_invariant [where P = ?P])
    show "?P st" by simp
  next
    fix i t t'
    assume "?P t" "foldE (aerosol_window x sc i) ?js t = Inr t'"
    then show "?P t'" by (rule inner)
  qed
qed

lemma final_correction_coeffs:
  assumes c: "final_correction x sc st = Inr st'"
  shows "coeffs st' = coeffs st"
proof -
  let ?P = "\<lambda>t. coeffs t = coeffs st"
  have inner: "?P t'" if "?P t" "foldE (final_pixel x sc ib) js t = Inr t'" for ib js t t'
    using that(2,1)
  proof (rule foldE_invariant [where P = ?P])
    fix a u u'
    assume "?P u" "final_pixel x sc ib a u = Inr u'"
    then show "?P u'"
      using final_pixel_coeffs(1) [of x sc ib a u u'] by simp
  qed
  from c show ?thesis
    unfolding final_correction_def
  proof (rule foldE_invariant [where P = ?P])
    show "?P st" by simp
  next
    fix ib t t'
    assume "?P t" "foldE (final_pixel x sc ib) [0..<nlines sc * nsamps sc] t = Inr t'"
    then show "?P t'" by (rule inner)
  qed
qed

lemma compute_landsat_sr_refl_coeffs:
  assumes "compute_landsat_sr_refl x sc st0 = Inr st3" and "climatology_stage x sc st0 = Inr st1"
  shows "coeffs st3 = coeffs st1"
proof -
  from assms obtain st2 fixed where w: "aerosol_window_pass x sc st1 = Inr st2"
    and f: "final_correction x sc
              (st2\<lparr>ipflag := fst (aerosol_interp_landsat x (qaband sc)
                                    (fst (aerosol_interp_landsat x (qaband sc) (fst fixed)
                                            (fst (snd fixed))))
                                    (snd (snd fixed))),
                   taero := snd (aerosol_interp_landsat x (qaband sc) (fst fixed)
                                   (fst (snd fixed))),
                   teps := snd (aerosol_interp_landsat x (qaband sc)
                                  (fst (aerosol_interp_landsat x (qaband sc) (fst fixed)
                                          (fst (snd fixed))))
                                  (snd (snd fixed)))\<rparr>) = Inr st3"
    unfolding compute_landsat_sr_refl_def sr_through_inversion_def Let_def
    by (auto split: sum.splits option.splits)
  show ?thesis
    using final_correction_coeffs [OF f] aerosol_window_pass_coeffs [OF w] by simp
qed

text \<open>
  Claim C10. The climatology stage calls \<^verbatim>\<open>atmcorlamb2\<close> once for each band of its
  band loop, every time with the optical thickness \<open>aot550nm[1] = 0.05\<close>, the exponent
  2.5 and the geometry, pressure, ozone and water vapour of the scene centre. The
  coefficients \<^verbatim>\<open>btgo, broatm, bttatmg, bsatm\<close> of a band are the outputs of that call;
  the climatology correction of every pixel that is not fill is computed with them; no
  later stage changes them; and the final correction reconstructs the reflectance at the
  top of the atmosphere with the coefficients it finds in the state.
\<close>

theorem climatology_coefficients:
  assumes c: "climatology_stage x sc st0 = Inr st1" and b: "ib \<le> SRL_BAND7 sc"
  shows "aot550nm ! 1 = 5/100
       \<and> atm_calls st1
           = atm_calls st0 @ map (\<lambda>b. (geo sc, 5/100, b, 5/2)) [0..<Suc (SRL_BAND7 sc)]
       \<and> (\<exists>out. atmcorlamb2 x (geo sc) (5/100) ib 0 (5/2) = Some out
              \<and> btgo (coeffs st1) ib = out_tgo out \<and> broatm (coeffs st1) ib = out_roatm out
              \<and> bttatmg (coeffs st1) ib = out_ttatmg out
              \<and> bsatm (coeffs st1) ib = out_satm out)
       \<and> (\<forall>i. i < nlines sc * nsamps sc \<and> \<not> level1_qa_is_fill x (qaband sc i)
              \<longrightarrow> sband st1 ib i
                    = climatology_store (MIN_VALID_REFL sc) (MAX_VALID_REFL sc)
                        (coeffs st1) ib (sband st0 ib i))
       \<and> (\<forall>st3. compute_landsat_sr_refl x sc st0 = Inr st3 \<longrightarrow> coeffs st3 = coeffs st1)
       \<and> (\<forall>st i st'. final_pixel x sc ib i st = Inr st'
              \<and> \<not> level1_qa_is_fill x (qaband sc i)
              \<longrightarrow> sband st' ib i
                    = clamp_refl (MIN_VALID_REFL sc) (MAX_VALID_REFL sc)
                        (atmcorlamb2_new x ib (taero st i)
                           (reconstruct_toa (coeffs st) ib (sband st ib i)) (teps st i)))"
proof -
  have a: "aot550nm ! 1 = 5/100"
    by (simp add: aot550nm_def)
  have e: "(2.5 :: real) = 5/2"
    by simp
  from c have f: "foldE (climatology_band x sc) [0..<Suc (SRL_BAND7 sc)] st0 = Inr st1"
    by (simp add: climatology_stage_def)
  have d: "distinct [0..<Suc (SRL_BAND7 sc)]"
    by simp
  have m: "ib \<in> set [0..<Suc (SRL_BAND7 sc)]"
    using b by auto
  have 1: "atm_calls st1
           = atm_calls st0 @ map (\<lambda>b. (geo sc, 5/100, b, 5/2)) [0..<Suc (SRL_BAND7 sc)]"
    using climatology_bands_calls [OF f] unfolding a e .
  have 2: "\<exists>out. atmcorlamb2 x (geo sc) (5/100) ib 0 (5/2) = Some out
              \<and> btgo (coeffs st1) ib = out_tgo out \<and> broatm (coeffs st1) ib = out_roatm out
              \<and> bttatmg (coeffs st1) ib = out_ttatmg out
              \<and> bsatm (coeffs st1) ib = out_satm out"
    using climatology_bands_coeffs(1) [OF f d m] unfolding a e .
  have 3: "\<forall>i. i < nlines sc * nsamps sc \<and> \<not> level1_qa_is_fill x (qaband sc i)
              \<longrightarrow> sband st1 ib i
                    = climatology_store (MIN_VALID_REFL sc) (MAX_VALID_REFL sc)
                        (coeffs st1) ib (sband st0 ib i)"
    using climatology_bands_coeffs(2) [OF f d m] by blast
  have 4: "\<forall>st3. compute_landsat_sr_refl x sc st0 = Inr st3 \<longrightarrow> coeffs st3 = coeffs st1"
    using compute_landsat_sr_refl_coeffs [OF _ c] by blast
  have 5: "\<forall>st i st'. final_pixel x sc ib i st = Inr st'
              \<and> \<not> level1_qa_is_fill x (qaband sc i)
              \<longrightarrow> sband st' ib i
                    = clamp_refl (MIN_VALID_REFL sc) (MAX_VALID_REFL sc)
                        (atmcorlamb2_new x ib (taero st i)
                           (reconstruct_toa (coeffs st) ib (sband st ib i)) (teps st i))"
    unfolding final_pixel_def Let_def by (auto split: if_splits)
  show ?thesis
    using a 1 2 3 4 5 by blast
qed

theorem climatology_coefficients_witness:
  "\<exists>st1. climatology_stage (stub_ext (1/4) (1/16) 1) s_scene s_init = Inr st1
      \<and> atm_calls st1 = map (\<lambda>b. (geo s_scene, 5/100, b, 5/2)) [0, 1, 2, 3, 4, 5, 6]
      \<and> btgo (coeffs st1) 3 = 98/100 \<and> broatm (coeffs st1) 3 = 5/100
      \<and> bttatmg (coeffs st1) 3 = 9/10 \<and> bsatm (coeffs st1) 3 = 1/10
      \<and> sband st1 3 0 = climatology_store (-2/10) (16/10) (coeffs st1) 3 (2/10)"
proof -
  let ?X = "stub_ext (1/4) (1/16) 1"
  from run_climatology obtain st1 where c: "climatology_stage ?X s_scene s_init = Inr st1"
    by blast
  have b: "3 \<le> SRL_BAND7 s_scene"
    by (simp add: s_scene_def)
  note t = climatology_coefficients [OF c b]
  have u: "[0..<Suc (SRL_BAND7 s_scene)] = [0, 1, 2, 3, 4, 5, 6]"
    by (simp add: s_scene_def upt_rec)
  have 1: "atm_calls st1 = map (\<lambda>b. (geo s_scene, 5/100, b, 5/2)) [0, 1, 2, 3, 4, 5, 6]"
    using t [THEN conjunct2, THEN conjunct1] unfolding u by (simp add: s_init_def)
  have 2: "btgo (coeffs st1) 3 = 98/100 \<and> broatm (coeffs st1) 3 = 5/100
      \<and> bttatmg (coeffs st1) 3 = 9/10 \<and> bsatm (coeffs st1) 3 = 1/10"
    using t [THEN conjunct2, THEN conjunct2, THEN conjunct1] by (auto simp: stub_ext_def)
  have 3: "sband st1 3 0 = climatology_store (-2/10) (16/10) (coeffs st1) 3 (2/10)"
    using t [THEN conjunct2, THEN conjunct2, THEN conjunct2, THEN conjunct1, THEN spec, of 0]
    by (simp add: s_scene_def s_init_def stub_ext_def)
  show ?thesis
    using c 1 2 3 by blast
qed

end
